theory Spec2Isabelle
  imports Complex_Main
begin

section \<open>Values of the Python program\<close>

text \<open>
  A Python float is a finite value, an infinity or a NaN. Finite doubles are rationals and
  compare as rationals, so a finite float is modelled by the rational it denotes
  (\<open>0.0\<close> and \<open>-0.0\<close> compare equal and are both \<open>Fin 0\<close>; the int \<open>0\<close>
  assigned on a parse failure compares as \<open>Fin 0\<close> too).
\<close>

datatype pyfloat = NaN | NegInf | Fin rat | PosInf

text \<open>The comparison \<open>a > b\<close> of Python floats: false whenever a NaN is involved.\<close>

fun pygt :: "pyfloat \<Rightarrow> pyfloat \<Rightarrow> bool" where
  "pygt NaN b = False"
| "pygt a NaN = False"
| "pygt NegInf b = False"
| "pygt (Fin x) NegInf = True"
| "pygt (Fin x) (Fin y) = (y < x)"
| "pygt (Fin x) PosInf = False"
| "pygt PosInf PosInf = False"
| "pygt PosInf b = True"

text \<open>
  What \<open>response.json()\<close> returns and what the program passes around: Python objects
  decoded from JSON. \<open>JNull\<close> is Python's \<open>None\<close>. A dict is an association list read
  with \<open>map_of\<close>.
\<close>

datatype json =
    JNull
  | JBool bool
  | JInt int
  | JFloat pyfloat
  | JString string
  | JArray "json list"
  | JObject "(string \<times> json) list"

text \<open>Python truthiness (\<open>if data:\<close>, \<open>not image_url\<close>, \<open>a or b\<close>).\<close>

fun py_truthy :: "json \<Rightarrow> bool" where
  "py_truthy JNull = False"
| "py_truthy (JBool b) = b"
| "py_truthy (JInt i) = (i \<noteq> 0)"
| "py_truthy (JFloat f) = (f \<noteq> Fin 0)"
| "py_truthy (JString s) = (s \<noteq> [])"
| "py_truthy (JArray xs) = (xs \<noteq> [])"
| "py_truthy (JObject kvs) = (kvs \<noteq> [])"

definition py_or :: "json \<Rightarrow> json \<Rightarrow> json" where
  "py_or a b = (if py_truthy a then a else b)"

text \<open>\<open>d.get(k, default)\<close> on a dict.\<close>

definition dict_get :: "(string \<times> json) list \<Rightarrow> string \<Rightarrow> json \<Rightarrow> json" where
  "dict_get kvs k d = (case map_of kvs k of None \<Rightarrow> d | Some v \<Rightarrow> v)"

text \<open>
  Exceptions. \<open>RequestException n\<close> is an instance of \<open>requests.exceptions.RequestException\<close>
  or of its subclass named \<open>n\<close> (what \<open>except RequestException\<close> catches); \<open>OtherException n\<close>
  is an instance of a class \<open>n\<close> outside that hierarchy; \<open>SystemExit c\<close> is raised by
  \<open>sys.exit(c)\<close>.
\<close>

datatype exn =
    RequestException string
  | AttributeError
  | TypeError
  | EOFError
  | SystemExit int
  | OtherException string

fun is_RequestException :: "exn \<Rightarrow> bool" where
  "is_RequestException (RequestException n) = True"
| "is_RequestException e = False"

section \<open>The world: network, sleeping, printing\<close>

text \<open>Lines printed to standard output, one constructor per \<open>print\<close> of the source.\<close>

datatype msg =
    RateLimited
  | RequestError exn
  | RequestGaveUp
  | ErrNoOpenAIKey
  | ErrNoGoogleKeys
  | ErrNoSerpApiKey
  | ErrBadSearchEngine
  | AskNewsText
  | ExtractingKeywords
  | KeywordsAre string
  | SearchingVia "string option"
  | BadSearchEngine
  | NoImagesFound
  | EvaluatingRelevance
  | ChosenUrl json
  | ChosenDescription json
  | NoRelevantImage

record world =
  net_calls :: nat
  llm_calls :: nat
  sleeps :: "nat list"
  printed :: "msg list"

definition print :: "msg \<Rightarrow> world \<Rightarrow> world" where
  "print m w = w\<lparr>printed := printed w @ [m]\<rparr>"

definition sleep :: "nat \<Rightarrow> world \<Rightarrow> world" where
  "sleep d w = w\<lparr>sleeps := sleeps w @ [d]\<rparr>"

record request =
  req_url :: string
  req_params :: "(string \<times> json) list"

text \<open>
  An HTTP response as the program reads it: its status code and what \<open>response.json()\<close>
  does (returns the decoded body or raises).
\<close>

record response =
  status_code :: int
  json_body :: "exn + json"

text \<open>
  The network: what the \<open>n\<close>-th call of \<open>requests.get\<close> of the run does with a request,
  raising or returning a response.
\<close>

type_synonym net = "nat \<Rightarrow> request \<Rightarrow> exn + response"

text \<open>\<open>response.raise_for_status()\<close> raises \<open>HTTPError\<close> for a 4xx or 5xx status.\<close>

definition raise_for_status :: "response \<Rightarrow> exn option" where
  "raise_for_status r =
     (if 400 \<le> status_code r \<and> status_code r < 600
      then Some (RequestException ''HTTPError'') else None)"

section \<open>make_request_with_retries\<close>

text \<open>How the body of the \<open>try\<close> block ends when it does not raise.\<close>

datatype flow = Continue | Return json

definition try_body :: "net \<Rightarrow> request \<Rightarrow> nat \<Rightarrow> world \<Rightarrow> (exn + flow) \<times> world" where
  "try_body net rq attempt w =
     (let w1 = w\<lparr>net_calls := Suc (net_calls w)\<rparr> in
      case net (net_calls w) rq of
        Inl e \<Rightarrow> (Inl e, w1)
      | Inr r \<Rightarrow>
          if status_code r = 429 then (Inr Continue, sleep (2 ^ attempt) (print RateLimited w1))
          else (case raise_for_status r of
                  Some e \<Rightarrow> (Inl e, w1)
                | None \<Rightarrow>
                    (case json_body r of
                       Inl e \<Rightarrow> (Inl e, w1)
                     | Inr j \<Rightarrow> (Inr (Return j), w1))))"

text \<open>
  The \<open>for attempt in range(max_retries)\<close> loop over the attempt numbers still to run.
  \<open>Inr JNull\<close> is \<open>return None\<close>; \<open>Inl e\<close> is an exception leaving the function.
\<close>

primrec fetch_loop :: "net \<Rightarrow> request \<Rightarrow> nat list \<Rightarrow> world \<Rightarrow> (exn + json) \<times> world" where
  "fetch_loop net rq [] w = (Inr JNull, print RequestGaveUp w)"
| "fetch_loop net rq (attempt # rest) w =
     (case try_body net rq attempt w of
        (Inr (Return j), w1) \<Rightarrow> (Inr j, w1)
      | (Inr Continue, w1) \<Rightarrow> fetch_loop net rq rest w1
      | (Inl e, w1) \<Rightarrow>
          if is_RequestException e
          then fetch_loop net rq rest (sleep (2 ^ attempt) (print (RequestError e) w1))
          else (Inl e, w1))"

definition make_request_with_retries ::
  "net \<Rightarrow> request \<Rightarrow> int \<Rightarrow> world \<Rightarrow> (exn + json) \<times> world" where
  "make_request_with_retries net rq max_retries w = fetch_loop net rq [0..<nat max_retries] w"

section \<open>Configuration read from the environment\<close>

text \<open>\<open>os.getenv\<close> gives a string or \<open>None\<close>.\<close>

record config =
  OPENAI_API_KEY :: "string option"
  SEARCH_ENGINE :: "string option"
  GOOGLE_API_KEY :: "string option"
  GOOGLE_CSE_ID :: "string option"
  SERPAPI_API_KEY :: "string option"

definition env_json :: "string option \<Rightarrow> json" where
  "env_json v = (case v of None \<Rightarrow> JNull | Some s \<Rightarrow> JString s)"

text \<open>The truth value of an environment variable: \<open>not X\<close> holds for \<open>None\<close> and for \<open>""\<close>.\<close>

definition env_set :: "string option \<Rightarrow> bool" where
  "env_set v = py_truthy (env_json v)"

section \<open>The search adapters\<close>

text \<open>\<open>data.get(k, default)\<close> on any object: only a dict has the method.\<close>

definition py_get :: "json \<Rightarrow> string \<Rightarrow> json \<Rightarrow> exn + json" where
  "py_get data k d = (case data of JObject kvs \<Rightarrow> Inr (dict_get kvs k d) | _ \<Rightarrow> Inl AttributeError)"

definition google_request :: "config \<Rightarrow> string \<Rightarrow> request" where
  "google_request cfg query =
     \<lparr>req_url = ''https://www.googleapis.com/customsearch/v1'',
      req_params = [(''q'', JString query), (''cx'', env_json (GOOGLE_CSE_ID cfg)),
                    (''key'', env_json (GOOGLE_API_KEY cfg)), (''searchType'', JString ''image''),
                    (''num'', JInt 5)]\<rparr>"

definition duckduckgo_request :: "config \<Rightarrow> string \<Rightarrow> request" where
  "duckduckgo_request cfg query =
     \<lparr>req_url = ''https://serpapi.com/search'',
      req_params = [(''q'', JString query), (''engine'', JString ''duckduckgo''),
                    (''api_key'', env_json (SERPAPI_API_KEY cfg)), (''no_html'', JString ''1''),
                    (''output'', JString ''json'')]\<rparr>"

text \<open>
  The common tail of both adapters: \<open>if data: return data.get(field, [])\<close>, else
  \<open>return []\<close>.
\<close>

definition items_of :: "string \<Rightarrow> (exn + json) \<times> world \<Rightarrow> (exn + json) \<times> world" where
  "items_of field r =
     (case r of
        (Inl e, w) \<Rightarrow> (Inl e, w)
      | (Inr data, w) \<Rightarrow>
          if py_truthy data
          then (case py_get data field (JArray []) of
                  Inl e \<Rightarrow> (Inl e, w)
                | Inr v \<Rightarrow> (Inr v, w))
          else (Inr (JArray []), w))"

definition search_images_google ::
  "config \<Rightarrow> net \<Rightarrow> string \<Rightarrow> world \<Rightarrow> (exn + json) \<times> world" where
  "search_images_google cfg net query w =
     items_of ''items'' (make_request_with_retries net (google_request cfg query) 5 w)"

definition search_images_duckduckgo ::
  "config \<Rightarrow> net \<Rightarrow> string \<Rightarrow> world \<Rightarrow> (exn + json) \<times> world" where
  "search_images_duckduckgo cfg net query w =
     items_of ''images_results'' (make_request_with_retries net (duckduckgo_request cfg query) 5 w)"

section \<open>Strings: strip and float\<close>

text \<open>
  A character is a code point below 256. \<open>str.strip()\<close> removes the whitespace of
  \<open>str.isspace\<close> at both ends: in this range the code points 9 to 13, 28 to 32, 133 and 160.
\<close>

definition py_isspace :: "char \<Rightarrow> bool" where
  "py_isspace c = ((of_char c :: nat) \<in> {9, 10, 11, 12, 13, 28, 29, 30, 31, 32, 133, 160})"

definition py_strip :: "string \<Rightarrow> string" where
  "py_strip s = rev (dropWhile py_isspace (rev (dropWhile py_isspace s)))"

text \<open>
  \<open>float(s)\<close> on a string, after the language reference: surrounding whitespace is dropped,
  then the text must be \<open>[sign] (floatnumber | "inf" | "infinity" | "nan")\<close>, the words in any
  letter case, with
  \<open>digitpart ::= digit (["_"] digit)*\<close>,
  \<open>number ::= [digitpart] "." digitpart | digitpart ["."]\<close>,
  \<open>floatnumber ::= number [("e" | "E") [sign] digitpart]\<close>.
  Anything else raises \<open>ValueError\<close> (\<open>None\<close> here).
\<close>

definition is_digit :: "char \<Rightarrow> bool" where
  "is_digit c = (48 \<le> (of_char c :: nat) \<and> (of_char c :: nat) \<le> 57)"

definition digit_val :: "char \<Rightarrow> nat" where
  "digit_val c = of_char c - 48"

definition digits_val :: "string \<Rightarrow> nat" where
  "digits_val ds = foldl (\<lambda>n c. 10 * n + digit_val c) 0 ds"

fun more_digits :: "string \<Rightarrow> string \<times> string" where
  "more_digits [] = ([], [])"
| "more_digits [c] = (if is_digit c then ([c], []) else ([], [c]))"
| "more_digits (c # d # cs) =
     (if is_digit c then (case more_digits (d # cs) of (ds, r) \<Rightarrow> (c # ds, r))
      else if c = CHR ''_'' \<and> is_digit d then (case more_digits cs of (ds, r) \<Rightarrow> (d # ds, r))
      else ([], c # d # cs))"

definition digitpart :: "string \<Rightarrow> (string \<times> string) option" where
  "digitpart s =
     (case s of
        [] \<Rightarrow> None
      | c # cs \<Rightarrow>
          if is_digit c then (case more_digits cs of (ds, r) \<Rightarrow> Some (c # ds, r)) else None)"

definition take_sign :: "string \<Rightarrow> bool \<times> string" where
  "take_sign s =
     (case s of
        [] \<Rightarrow> (False, [])
      | c # cs \<Rightarrow>
          if c = CHR ''-'' then (True, cs) else if c = CHR ''+'' then (False, cs) else (False, s))"

text \<open>The integer digits, the fraction digits and the rest of the text.\<close>

definition number :: "string \<Rightarrow> (string \<times> string \<times> string) option" where
  "number s =
     (case digitpart s of
        Some (ip, r) \<Rightarrow>
          (case r of
             [] \<Rightarrow> Some (ip, [], [])
           | c # r1 \<Rightarrow>
               if c = CHR ''.''
               then (case digitpart r1 of
                       Some (fp, r2) \<Rightarrow> Some (ip, fp, r2)
                     | None \<Rightarrow> Some (ip, [], r1))
               else Some (ip, [], r))
      | None \<Rightarrow>
          (case s of
             [] \<Rightarrow> None
           | c # r \<Rightarrow>
               if c = CHR ''.''
               then (case digitpart r of Some (fp, r1) \<Rightarrow> Some ([], fp, r1) | None \<Rightarrow> None)
               else None))"

text \<open>What is left after the number must be empty or one exponent.\<close>

definition exponent :: "string \<Rightarrow> int option" where
  "exponent s =
     (case s of
        [] \<Rightarrow> Some 0
      | c # cs \<Rightarrow>
          if c = CHR ''e'' \<or> c = CHR ''E''
          then (case take_sign cs of
                  (neg, r) \<Rightarrow>
                    (case digitpart r of
                       Some (ds, []) \<Rightarrow>
                         Some (if neg then - int (digits_val ds) else int (digits_val ds))
                     | _ \<Rightarrow> None))
          else None)"

definition scale10 :: "rat \<Rightarrow> int \<Rightarrow> rat" where
  "scale10 q e = (if 0 \<le> e then q * 10 ^ nat e else q / 10 ^ nat (- e))"

definition literal_value :: "bool \<Rightarrow> string \<Rightarrow> string \<Rightarrow> int \<Rightarrow> rat" where
  "literal_value neg ip fp e =
     (let v = scale10 (of_nat (digits_val ip) + of_nat (digits_val fp) / 10 ^ length fp) e
      in if neg then - v else v)"

definition to_lower :: "char \<Rightarrow> char" where
  "to_lower c =
     (if 65 \<le> (of_char c :: nat) \<and> (of_char c :: nat) \<le> 90
      then char_of ((of_char c :: nat) + 32) else c)"

datatype float_literal = NanLit | InfLit bool | NumLit rat

definition parse_float_literal :: "string \<Rightarrow> float_literal option" where
  "parse_float_literal s =
     (case take_sign s of
        (neg, r) \<Rightarrow>
          if map to_lower r = ''inf'' \<or> map to_lower r = ''infinity'' then Some (InfLit neg)
          else if map to_lower r = ''nan'' then Some NanLit
          else (case number r of
                  None \<Rightarrow> None
                | Some (ip, fp, r1) \<Rightarrow>
                    (case exponent r1 of
                       None \<Rightarrow> None
                     | Some e \<Rightarrow> Some (NumLit (literal_value neg ip fp e)))))"

text \<open>
  The value of a numeric literal is the double nearest to the rational written. Rounding is
  not modelled: \<open>rnd\<close> stands for it (a literal too large rounds to an infinity).
\<close>

definition py_float :: "(rat \<Rightarrow> pyfloat) \<Rightarrow> string \<Rightarrow> pyfloat option" where
  "py_float rnd s =
     (case parse_float_literal (py_strip s) of
        None \<Rightarrow> None
      | Some NanLit \<Rightarrow> Some NaN
      | Some (InfLit neg) \<Rightarrow> Some (if neg then NegInf else PosInf)
      | Some (NumLit q) \<Rightarrow> Some (rnd q))"

section \<open>The language model\<close>

text \<open>
  A prompt is the fixed template with its arguments. The model is what the \<open>n\<close>-th
  \<open>llm.invoke\<close> of the run does with a prompt: it raises or returns a text.
\<close>

datatype prompt = KeywordsPrompt string | RelevancePrompt string json

type_synonym llm = "nat \<Rightarrow> prompt \<Rightarrow> exn + string"

definition extract_keywords ::
  "config \<Rightarrow> llm \<Rightarrow> string \<Rightarrow> world \<Rightarrow> (exn + string) \<times> world" where
  "extract_keywords cfg llm text w =
     (if \<not> env_set (OPENAI_API_KEY cfg) then (Inl (SystemExit 1), print ErrNoOpenAIKey w)
      else (let w1 = w\<lparr>llm_calls := Suc (llm_calls w)\<rparr> in
            case llm (llm_calls w) (KeywordsPrompt text) of
              Inl e \<Rightarrow> (Inl e, w1)
            | Inr keywords \<Rightarrow> (Inr (py_strip keywords), w1)))"

section \<open>evaluate_relevance\<close>

record best_image =
  url :: json
  description :: json

text \<open>The placeholder description of the source, as its UTF-8 bytes.\<close>

definition no_description :: string where
  "no_description =
     [CHR 0xD0, CHR 0x9D, CHR 0xD0, CHR 0xB5, CHR 0xD1, CHR 0x82, CHR 0x20,
      CHR 0xD0, CHR 0xBE, CHR 0xD0, CHR 0xBF, CHR 0xD0, CHR 0xB8, CHR 0xD1, CHR 0x81,
      CHR 0xD0, CHR 0xB0, CHR 0xD0, CHR 0xBD, CHR 0xD0, CHR 0xB8, CHR 0xD1, CHR 0x8F]"

text \<open>\<open>try: score = float(score_text.strip())\<close>, \<open>except ValueError: score = 0\<close>.\<close>

definition parse_score :: "(rat \<Rightarrow> pyfloat) \<Rightarrow> string \<Rightarrow> pyfloat" where
  "parse_score rnd score_text =
     (case py_float rnd (py_strip score_text) of None \<Rightarrow> Fin 0 | Some v \<Rightarrow> v)"

definition resolve_url :: "(string \<times> json) list \<Rightarrow> json" where
  "resolve_url kvs = py_or (dict_get kvs ''link'' JNull) (dict_get kvs ''thumbnail'' JNull)"

text \<open>
  One pass of the loop body on the pair \<open>(best_image, best_score)\<close>. An image that is not
  a dict has no \<open>get\<close>.
\<close>

definition loop_body ::
  "llm \<Rightarrow> (rat \<Rightarrow> pyfloat) \<Rightarrow> string \<Rightarrow> json \<Rightarrow> best_image option \<times> pyfloat \<Rightarrow> world
     \<Rightarrow> (exn + best_image option \<times> pyfloat) \<times> world" where
  "loop_body llm rnd text img acc w =
     (case img of
        JObject kvs \<Rightarrow>
          (let image_url = resolve_url kvs in
           if \<not> py_truthy image_url then (Inr acc, w)
           else (let w1 = w\<lparr>llm_calls := Suc (llm_calls w)\<rparr> in
                 case llm (llm_calls w) (RelevancePrompt text image_url) of
                   Inl e \<Rightarrow> (Inl e, w1)
                 | Inr score_text \<Rightarrow>
                     (let score = parse_score rnd score_text in
                      if pygt score (snd acc)
                      then (Inr (Some \<lparr>url = image_url,
                                       description = dict_get kvs ''title'' (JString no_description)\<rparr>,
                                 score), w1)
                      else (Inr acc, w1))))
      | _ \<Rightarrow> (Inl AttributeError, w))"

primrec relevance_loop ::
  "llm \<Rightarrow> (rat \<Rightarrow> pyfloat) \<Rightarrow> string \<Rightarrow> json list \<Rightarrow> best_image option \<times> pyfloat \<Rightarrow> world
     \<Rightarrow> (exn + best_image option \<times> pyfloat) \<times> world" where
  "relevance_loop llm rnd text [] acc w = (Inr acc, w)"
| "relevance_loop llm rnd text (img # rest) acc w =
     (case loop_body llm rnd text img acc w of
        (Inl e, w1) \<Rightarrow> (Inl e, w1)
      | (Inr acc1, w1) \<Rightarrow> relevance_loop llm rnd text rest acc1 w1)"

text \<open>
  \<open>for image in images\<close>: a list gives its elements, a dict its keys, a string its
  characters; nothing else of JSON can be iterated.
\<close>

definition py_iter :: "json \<Rightarrow> exn + json list" where
  "py_iter v =
     (case v of
        JArray xs \<Rightarrow> Inr xs
      | JObject kvs \<Rightarrow> Inr (map JString (remdups (map fst kvs)))
      | JString s \<Rightarrow> Inr (map (\<lambda>c. JString [c]) s)
      | _ \<Rightarrow> Inl TypeError)"

definition evaluate_relevance ::
  "config \<Rightarrow> llm \<Rightarrow> (rat \<Rightarrow> pyfloat) \<Rightarrow> json \<Rightarrow> string \<Rightarrow> world
     \<Rightarrow> (exn + best_image option) \<times> world" where
  "evaluate_relevance cfg llm rnd images text w =
     (if \<not> env_set (OPENAI_API_KEY cfg) then (Inl (SystemExit 1), print ErrNoOpenAIKey w)
      else (case py_iter images of
              Inl e \<Rightarrow> (Inl e, w)
            | Inr imgs \<Rightarrow>
                (case relevance_loop llm rnd text imgs (None, NegInf) w of
                   (Inl e, w1) \<Rightarrow> (Inl e, w1)
                 | (Inr (best, best_score), w1) \<Rightarrow> (Inr best, w1))))"

section \<open>main\<close>

text \<open>The checks of the API keys at the start of \<open>main\<close>.\<close>

definition config_check :: "config \<Rightarrow> world \<Rightarrow> (exn + unit) \<times> world" where
  "config_check cfg w =
     (if \<not> env_set (OPENAI_API_KEY cfg) then (Inl (SystemExit 1), print ErrNoOpenAIKey w)
      else if SEARCH_ENGINE cfg = Some ''google'' then
        (if \<not> env_set (GOOGLE_API_KEY cfg) \<or> \<not> env_set (GOOGLE_CSE_ID cfg)
         then (Inl (SystemExit 1), print ErrNoGoogleKeys w) else (Inr (), w))
      else if SEARCH_ENGINE cfg = Some ''duckduckgo'' then
        (if \<not> env_set (SERPAPI_API_KEY cfg)
         then (Inl (SystemExit 1), print ErrNoSerpApiKey w) else (Inr (), w))
      else (Inl (SystemExit 1), print ErrBadSearchEngine w))"

text \<open>From \<open>if not images\<close> to the end of \<open>main\<close>, on what the adapter gave.\<close>

definition report ::
  "config \<Rightarrow> llm \<Rightarrow> (rat \<Rightarrow> pyfloat) \<Rightarrow> string \<Rightarrow> (exn + json) \<times> world \<Rightarrow> (exn + unit) \<times> world" where
  "report cfg llm rnd text r =
     (case r of
        (Inl e, w) \<Rightarrow> (Inl e, w)
      | (Inr images, w) \<Rightarrow>
          if \<not> py_truthy images then (Inr (), print NoImagesFound w)
          else (case evaluate_relevance cfg llm rnd images text (print EvaluatingRelevance w) of
                  (Inl e, w1) \<Rightarrow> (Inl e, w1)
                | (Inr None, w1) \<Rightarrow> (Inr (), print NoRelevantImage w1)
                | (Inr (Some b), w1) \<Rightarrow>
                    (Inr (), print (ChosenDescription (description b)) (print (ChosenUrl (url b)) w1))))"

text \<open>
  \<open>main\<close>: \<open>stdin\<close> is the line \<open>input\<close> reads (\<open>None\<close> at end of file). \<open>Inr ()\<close> is the
  normal return.
\<close>

definition main ::
  "config \<Rightarrow> string option \<Rightarrow> net \<Rightarrow> llm \<Rightarrow> (rat \<Rightarrow> pyfloat) \<Rightarrow> world \<Rightarrow> (exn + unit) \<times> world" where
  "main cfg stdin net llm rnd w =
     (case config_check cfg w of
        (Inl e, w1) \<Rightarrow> (Inl e, w1)
      | (Inr u, w1) \<Rightarrow>
          (case stdin of
             None \<Rightarrow> (Inl EOFError, print AskNewsText w1)
           | Some text \<Rightarrow>
               (case extract_keywords cfg llm text (print ExtractingKeywords (print AskNewsText w1)) of
                  (Inl e, w2) \<Rightarrow> (Inl e, w2)
                | (Inr keywords, w2) \<Rightarrow>
                    (let w3 = print (SearchingVia (SEARCH_ENGINE cfg)) (print (KeywordsAre keywords) w2) in
                     if SEARCH_ENGINE cfg = Some ''google''
                     then report cfg llm rnd text (search_images_google cfg net keywords w3)
                     else if SEARCH_ENGINE cfg = Some ''duckduckgo''
                     then report cfg llm rnd text (search_images_duckduckgo cfg net keywords w3)
                     else (Inr (), print BadSearchEngine w3)))))"

text \<open>The exit status of the process: 0 on a normal return, the code of \<open>sys.exit\<close>, 1 on a traceback.\<close>

definition exit_status :: "exn + unit \<Rightarrow> int" where
  "exit_status r = (case r of Inr u \<Rightarrow> 0 | Inl (SystemExit c) \<Rightarrow> c | Inl e \<Rightarrow> 1)"

section \<open>Predicates and inputs used in the statements\<close>

text \<open>What one call of \<open>requests.get\<close> did: it answered with the status \<open>sc\<close>.\<close>

definition answers :: "int \<Rightarrow> exn + response \<Rightarrow> bool" where
  "answers sc r = (case r of Inl e \<Rightarrow> False | Inr resp \<Rightarrow> status_code resp = sc)"

text \<open>
  The attempt ends in a retry: a 429, or a \<open>RequestException\<close> from \<open>requests.get\<close>,
  from \<open>raise_for_status\<close> or from \<open>response.json()\<close>.
\<close>

definition attempt_fails :: "exn + response \<Rightarrow> bool" where
  "attempt_fails r =
     (case r of
        Inl e \<Rightarrow> is_RequestException e
      | Inr resp \<Rightarrow>
          status_code resp = 429 \<or> raise_for_status resp \<noteq> None \<or>
          (case json_body resp of Inl e \<Rightarrow> is_RequestException e | Inr j \<Rightarrow> False))"

text \<open>Whatever the call raises, in \<open>requests.get\<close> or in \<open>response.json()\<close>, is a \<open>RequestException\<close>.\<close>

definition raises_only_RequestException :: "exn + response \<Rightarrow> bool" where
  "raises_only_RequestException r =
     (case r of
        Inl e \<Rightarrow> is_RequestException e
      | Inr resp \<Rightarrow> (case json_body resp of Inl e \<Rightarrow> is_RequestException e | Inr j \<Rightarrow> True))"

text \<open>Concrete inputs.\<close>

definition world0 :: world where
  "world0 = \<lparr>net_calls = 0, llm_calls = 0, sleeps = [], printed = []\<rparr>"

definition request0 :: request where
  "request0 = \<lparr>req_url = ''https://serpapi.com/search'', req_params = [(''q'', JString ''fire'')]\<rparr>"

definition net_429_429_200 :: net where
  "net_429_429_200 n rq =
     (if n < 2 then Inr \<lparr>status_code = 429, json_body = Inl (RequestException ''JSONDecodeError'')\<rparr>
      else Inr \<lparr>status_code = 200, json_body = Inr (JObject [(''images_results'', JArray [])])\<rparr>)"

definition net_always_429 :: net where
  "net_always_429 n rq = Inr \<lparr>status_code = 429, json_body = Inr JNull\<rparr>"

definition net_invalid_json :: net where
  "net_invalid_json n rq = Inr \<lparr>status_code = 200, json_body = Inl (OtherException ''ValueError'')\<rparr>"

definition net_failing :: net where
  "net_failing n rq =
     (if n = 0 then Inl (RequestException ''ConnectionError'')
      else if n = 1 then Inr \<lparr>status_code = 503, json_body = Inr JNull\<rparr>
      else if n = 2 then Inr \<lparr>status_code = 429, json_body = Inr JNull\<rparr>
      else Inr \<lparr>status_code = 200, json_body = Inl (RequestException ''JSONDecodeError'')\<rparr>)"

text \<open>A dict without the key \<open>field\<close>.\<close>

definition lacks_field :: "string \<Rightarrow> json \<Rightarrow> bool" where
  "lacks_field field data = (case data of JObject kvs \<Rightarrow> map_of kvs field = None | _ \<Rightarrow> False)"

text \<open>A dict whose \<open>field\<close> is absent or the empty list: a response holding zero items.\<close>

definition zero_items :: "string \<Rightarrow> json \<Rightarrow> bool" where
  "zero_items field data =
     (case data of JObject kvs \<Rightarrow> dict_get kvs field (JArray []) = JArray [] | _ \<Rightarrow> False)"

text \<open>The world in which \<open>main\<close> calls the search adapter, after the keywords were extracted.\<close>

definition search_start :: "config \<Rightarrow> string \<Rightarrow> world \<Rightarrow> world" where
  "search_start cfg keywords w =
     print (SearchingVia (SEARCH_ENGINE cfg))
       (print (KeywordsAre keywords)
          ((print ExtractingKeywords (print AskNewsText w))\<lparr>llm_calls := Suc (llm_calls w)\<rparr>))"

text \<open>
  All required configuration is present: the language-model key, a supported search engine
  and the credentials of that engine, each a non-empty string.
\<close>

definition config_ok :: "config \<Rightarrow> bool" where
  "config_ok cfg =
     (env_set (OPENAI_API_KEY cfg) \<and>
      (SEARCH_ENGINE cfg = Some ''google'' \<and> env_set (GOOGLE_API_KEY cfg) \<and> env_set (GOOGLE_CSE_ID cfg) \<or>
       SEARCH_ENGINE cfg = Some ''duckduckgo'' \<and> env_set (SERPAPI_API_KEY cfg)))"

text \<open>The lines printed right before \<open>sys.exit(1)\<close>, and what was printed since a world \<open>w\<close>.\<close>

definition config_errors :: "msg set" where
  "config_errors = {ErrNoOpenAIKey, ErrNoGoogleKeys, ErrNoSerpApiKey, ErrBadSearchEngine}"

definition new_output :: "world \<Rightarrow> world \<Rightarrow> msg list" where
  "new_output w w1 = drop (length (printed w)) (printed w1)"

definition quiet_since :: "world \<Rightarrow> world \<Rightarrow> bool" where
  "quiet_since w w1 = (\<exists>ms. printed w1 = printed w @ ms \<and> set ms \<inter> config_errors = {})"

definition cfg_no_openai :: config where
  "cfg_no_openai = \<lparr>OPENAI_API_KEY = None, SEARCH_ENGINE = Some ''google'',
     GOOGLE_API_KEY = Some ''g-key'', GOOGLE_CSE_ID = Some ''cse'', SERPAPI_API_KEY = Some ''serp''\<rparr>"

definition net_no_items :: net where
  "net_no_items n rq =
     Inr \<lparr>status_code = 200,
          json_body = Inr (JObject [(''items'', JArray []), (''images_results'', JArray [])])\<rparr>"

definition llm_keywords :: llm where
  "llm_keywords n p = Inr '' wildfire region ''"

definition news_text :: string where
  "news_text = ''Wildfires spread across the region''"

definition cfg_google :: config where
  "cfg_google = \<lparr>OPENAI_API_KEY = Some ''sk-1'', SEARCH_ENGINE = Some ''google'',
     GOOGLE_API_KEY = Some ''g-key'', GOOGLE_CSE_ID = Some ''cse'', SERPAPI_API_KEY = None\<rparr>"

definition cfg_duckduckgo :: config where
  "cfg_duckduckgo = \<lparr>OPENAI_API_KEY = Some ''sk-1'', SEARCH_ENGINE = Some ''duckduckgo'',
     GOOGLE_API_KEY = None, GOOGLE_CSE_ID = None, SERPAPI_API_KEY = Some ''serp''\<rparr>"

definition net_fieldless :: net where
  "net_fieldless n rq = Inr \<lparr>status_code = 200, json_body = Inr (JObject [(''kind'', JString ''customsearch#search'')])\<rparr>"

definition net_falsy :: net where
  "net_falsy n rq = Inr \<lparr>status_code = 200, json_body = Inr (JObject [])\<rparr>"

text \<open>The BestImage a candidate is reduced to: its resolved URL and its title or the placeholder.\<close>

definition candidate_image :: "(string \<times> json) list \<Rightarrow> best_image" where
  "candidate_image kvs =
     \<lparr>url = resolve_url kvs, description = dict_get kvs ''title'' (JString no_description)\<rparr>"

text \<open>
  The scored candidates of the specification: each candidate with a resolvable URL, in the
  order of the input, paired with the score parsed from the completion of its own model call
  (the \<open>k\<close>-th call of the run for the first of them, and so on). There is no such list when
  a model call raises or an element is not a dict.
\<close>

fun scored_candidates ::
  "llm \<Rightarrow> (rat \<Rightarrow> pyfloat) \<Rightarrow> string \<Rightarrow> json list \<Rightarrow> nat
     \<Rightarrow> exn + ((string \<times> json) list \<times> pyfloat) list" where
  "scored_candidates llm rnd text [] k = Inr []"
| "scored_candidates llm rnd text (img # rest) k =
     (case img of
        JObject kvs \<Rightarrow>
          if \<not> py_truthy (resolve_url kvs) then scored_candidates llm rnd text rest k
          else (case llm k (RelevancePrompt text (resolve_url kvs)) of
                  Inl e \<Rightarrow> Inl e
                | Inr s \<Rightarrow>
                    (case scored_candidates llm rnd text rest (Suc k) of
                       Inl e \<Rightarrow> Inl e
                     | Inr cs \<Rightarrow> Inr ((kvs, parse_score rnd s) # cs)))
      | _ \<Rightarrow> Inl AttributeError)"

text \<open>The candidates with a resolvable URL.\<close>

fun resolvable_candidates :: "json list \<Rightarrow> (string \<times> json) list list" where
  "resolvable_candidates [] = []"
| "resolvable_candidates (JObject kvs # rest) =
     (if py_truthy (resolve_url kvs) then kvs # resolvable_candidates rest
      else resolvable_candidates rest)"
| "resolvable_candidates (img # rest) = resolvable_candidates rest"

text \<open>
  Position \<open>i\<close> of a list of scores holds the maximum (a number no other score exceeds), and
  it is the first position that holds it.
\<close>

definition is_max_score :: "pyfloat list \<Rightarrow> nat \<Rightarrow> bool" where
  "is_max_score ss i = (i < length ss \<and> ss ! i \<noteq> NaN \<and> (\<forall>x\<in>set ss. \<not> pygt x (ss ! i)))"

definition is_first_max :: "pyfloat list \<Rightarrow> nat \<Rightarrow> bool" where
  "is_first_max ss i = (is_max_score ss i \<and> ss ! i \<notin> set (take i ss))"

definition finite_score :: "pyfloat \<Rightarrow> bool" where
  "finite_score s = (case s of Fin x \<Rightarrow> True | _ \<Rightarrow> False)"

text \<open>The running maximum over scored candidates, as the loop keeps it.\<close>

fun running_max ::
  "((string \<times> json) list \<times> pyfloat) list \<Rightarrow> best_image option \<times> pyfloat
     \<Rightarrow> best_image option \<times> pyfloat" where
  "running_max [] acc = acc"
| "running_max (c # cs) acc =
     running_max cs (if pygt (snd c) (snd acc) then (Some (candidate_image (fst c)), snd c) else acc)"

text \<open>What the running maximum holds after any number of candidates.\<close>

definition max_inv :: "((string \<times> json) list \<times> pyfloat) list \<Rightarrow> best_image option \<times> pyfloat \<Rightarrow> bool" where
  "max_inv cs acc =
     (snd acc \<noteq> NaN \<and> (\<forall>j<length cs. \<not> pygt (snd (cs ! j)) (snd acc)) \<and>
      (case fst acc of
         None \<Rightarrow> snd acc = NegInf
       | Some b \<Rightarrow>
           snd acc \<noteq> NegInf \<and>
           (\<exists>i<length cs. b = candidate_image (fst (cs ! i)) \<and> snd (cs ! i) = snd acc \<and>
              (\<forall>j<i. snd (cs ! j) \<noteq> snd acc))))"

text \<open>An element that is a dict without a resolvable URL; a dict with neither URL key.\<close>

definition unresolvable :: "json \<Rightarrow> bool" where
  "unresolvable img = (case img of JObject kvs \<Rightarrow> \<not> py_truthy (resolve_url kvs) | _ \<Rightarrow> False)"

definition fieldless :: "json \<Rightarrow> bool" where
  "fieldless img =
     (case img of
        JObject kvs \<Rightarrow> map_of kvs ''link'' = None \<and> map_of kvs ''thumbnail'' = None
      | _ \<Rightarrow> False)"

text \<open>A model that answers its calls with the given texts, in order, and fails afterwards.\<close>

definition llm_scores :: "string list \<Rightarrow> llm" where
  "llm_scores ts n p = (if n < length ts then Inr (ts ! n) else Inl (OtherException ''APIError''))"

definition fire1 :: "(string \<times> json) list" where
  "fire1 = [(''link'', JString ''http://a/1.jpg''), (''title'', JString ''Fire1'')]"

definition fire2 :: "(string \<times> json) list" where
  "fire2 = [(''link'', JString ''http://a/2.jpg''), (''title'', JString ''Fire2'')]"

definition empty_link :: "(string \<times> json) list" where
  "empty_link = [(''link'', JString []), (''title'', JString ''Fire1'')]"

definition thumb_only :: "(string \<times> json) list" where
  "thumb_only = [(''link'', JString []), (''thumbnail'', JString ''http://t/3.png'')]"

section \<open>Properties of make_request_with_retries\<close>

lemma try_body_429:
  "answers 429 (net (net_calls w) rq) \<Longrightarrow>
   try_body net rq a w = (Inr Continue, sleep (2 ^ a) (print RateLimited (w\<lparr>net_calls := Suc (net_calls w)\<rparr>)))"
  by (auto simp: try_body_def answers_def split: sum.splits)

lemma fetch_loop_429s_append:
  "(\<forall>i<length as. answers 429 (net (net_calls w + i) rq)) \<Longrightarrow>
   fetch_loop net rq (as @ bs) w =
   fetch_loop net rq bs
     (w\<lparr>net_calls := net_calls w + length as,
        sleeps := sleeps w @ map (\<lambda>a. 2 ^ a) as,
        printed := printed w @ replicate (length as) RateLimited\<rparr>)"
proof (induction as arbitrary: w)
  case Nil
  then show ?case by simp
next
  case (Cons a as)
  let ?w1 = "sleep (2 ^ a) (print RateLimited (w\<lparr>net_calls := Suc (net_calls w)\<rparr>))"
  from Cons.prems have h0: "answers 429 (net (net_calls w) rq)" by fastforce
  have nc: "net_calls ?w1 = Suc (net_calls w)" by (simp add: sleep_def print_def)
  have "\<forall>i<length as. answers 429 (net (net_calls ?w1 + i) rq)"
  proof (intro allI impI)
    fix i assume "i < length as"
    then have "Suc i < length (a # as)" by simp
    with Cons.prems have "answers 429 (net (net_calls w + Suc i) rq)" by blast
    then show "answers 429 (net (net_calls ?w1 + i) rq)" by (simp add: nc)
  qed
  from Cons.IH[OF this] show ?case
    using try_body_429[of net w rq a] h0
    by (simp add: sleep_def print_def replicate_app_Cons_same)
qed

lemma fetch_loop_fst_Inl:
  "fst (fetch_loop net rq as w) = Inl e \<Longrightarrow> \<not> is_RequestException e"
proof (induction as arbitrary: w)
  case Nil
  then show ?case by simp
next
  case (Cons a as)
  then show ?case
    by (auto split: prod.splits sum.splits flow.splits if_splits)
qed

lemma try_body_fails:
  "attempt_fails (net (net_calls w) rq) \<Longrightarrow>
   \<exists>w1. net_calls w1 = Suc (net_calls w) \<and>
     (try_body net rq a w = (Inr Continue, w1) \<or>
      (\<exists>e. is_RequestException e \<and> try_body net rq a w = (Inl e, w1)))"
  by (auto simp: try_body_def Let_def attempt_fails_def raise_for_status_def sleep_def print_def
      split: sum.splits option.splits if_splits)

lemma fetch_loop_all_fail:
  "(\<forall>i<length as. attempt_fails (net (net_calls w + i) rq)) \<Longrightarrow>
   fst (fetch_loop net rq as w) = Inr JNull"
proof (induction as arbitrary: w)
  case Nil
  then show ?case by simp
next
  case (Cons a as)
  from Cons.prems have h0: "attempt_fails (net (net_calls w) rq)" by fastforce
  from try_body_fails[of net w rq a] h0 obtain w1 where
    nc: "net_calls w1 = Suc (net_calls w)" and
    tb: "try_body net rq a w = (Inr Continue, w1) \<or>
      (\<exists>e. is_RequestException e \<and> try_body net rq a w = (Inl e, w1))" by blast
  have shift: "\<forall>i<length as. attempt_fails (net (net_calls w2 + i) rq)"
    if a: "net_calls w2 = Suc (net_calls w)" for w2 :: world
  proof (intro allI impI)
    fix i assume "i < length as"
    then have "Suc i < length (a # as)" by simp
    with Cons.prems have "attempt_fails (net (net_calls w + Suc i) rq)" by blast
    then show "attempt_fails (net (net_calls w2 + i) rq)" by (simp add: a)
  qed
  from tb show ?case
  proof
    assume "try_body net rq a w = (Inr Continue, w1)"
    then show ?thesis using Cons.IH[OF shift[OF nc]] by simp
  next
    assume "\<exists>e. is_RequestException e \<and> try_body net rq a w = (Inl e, w1)"
    then obtain e where e: "is_RequestException e" "try_body net rq a w = (Inl e, w1)" by blast
    have "net_calls (sleep (2 ^ a) (print (RequestError e) w1)) = Suc (net_calls w)"
      by (simp add: sleep_def print_def nc)
    from Cons.IH[OF shift[OF this]] e show ?thesis by simp
  qed
qed


lemma fetch_loop_returns:
  "(\<forall>n. raises_only_RequestException (net n rq)) \<Longrightarrow> \<exists>j. fst (fetch_loop net rq as w) = Inr j"
proof (induction as arbitrary: w)
  case Nil
  then show ?case by simp
next
  case (Cons a as)
  from Cons.prems have r: "raises_only_RequestException (net (net_calls w) rq)" by blast
  show ?case
  proof (cases "try_body net rq a w")
    case (Pair x w1)
    show ?thesis
    proof (cases x)
      case (Inl e)
      with Pair r have "is_RequestException e"
        by (auto simp: try_body_def Let_def raises_only_RequestException_def raise_for_status_def
            split: sum.splits if_splits)
      with Pair Inl Cons.IH[OF Cons.prems] show ?thesis by simp
    next
      case (Inr f)
      with Pair Cons.IH[OF Cons.prems] show ?thesis by (cases f) simp_all
    qed
  qed
qed

text \<open>
  C1. With the answers 429, 429, 200 (and at least three attempts allowed, as with the default
  of five) the fetcher sleeps exactly twice, \<open>2 ^ 0\<close> then \<open>2 ^ 1\<close>, and returns the JSON
  body of the 200 response. When all \<open>max_retries\<close> answers are 429 it returns \<open>None\<close>
  without raising, having slept \<open>2 ^ attempt\<close> after each attempt.
\<close>

theorem retry_429_429_200:
  "(answers 429 (net (net_calls w) rq) \<and> answers 429 (net (net_calls w + 1) rq) \<and>
    net (net_calls w + 2) rq = Inr \<lparr>status_code = 200, json_body = Inr body\<rparr> \<and> 3 \<le> max_retries
    \<longrightarrow> make_request_with_retries net rq max_retries w =
        (Inr body, w\<lparr>net_calls := net_calls w + 3,
                     sleeps := sleeps w @ [2 ^ 0, 2 ^ 1],
                     printed := printed w @ [RateLimited, RateLimited]\<rparr>)) \<and>
   ((\<forall>i<nat max_retries. answers 429 (net (net_calls w + i) rq))
    \<longrightarrow> make_request_with_retries net rq max_retries w =
        (Inr JNull, w\<lparr>net_calls := net_calls w + nat max_retries,
                      sleeps := sleeps w @ map (\<lambda>attempt. 2 ^ attempt) [0..<nat max_retries],
                      printed := printed w @ replicate (nat max_retries) RateLimited @ [RequestGaveUp]\<rparr>))"
proof (intro conjI impI)
  assume h: "answers 429 (net (net_calls w) rq) \<and> answers 429 (net (net_calls w + 1) rq) \<and>
    net (net_calls w + 2) rq = Inr \<lparr>status_code = 200, json_body = Inr body\<rparr> \<and> 3 \<le> max_retries"
  then have "2 < nat max_retries" by linarith
  then have upt: "[0..<nat max_retries] = [0, 1] @ (2 # [3..<nat max_retries])"
    by (simp add: upt_conv_Cons numeral_2_eq_2 numeral_3_eq_3)
  have first_two: "\<forall>i<length [0::nat, 1]. answers 429 (net (net_calls w + i) rq)"
    using h by (simp add: less_Suc_eq)
  show "make_request_with_retries net rq max_retries w =
        (Inr body, w\<lparr>net_calls := net_calls w + 3,
                     sleeps := sleeps w @ [2 ^ 0, 2 ^ 1],
                     printed := printed w @ [RateLimited, RateLimited]\<rparr>)"
    unfolding make_request_with_retries_def upt
    using h fetch_loop_429s_append[of "[0, 1]" net w rq "2 # [3..<nat max_retries]"] first_two
    by (simp add: try_body_def raise_for_status_def numeral_2_eq_2)
next
  assume h: "\<forall>i<nat max_retries. answers 429 (net (net_calls w + i) rq)"
  then have "\<forall>i<length [0..<nat max_retries]. answers 429 (net (net_calls w + i) rq)" by simp
  with fetch_loop_429s_append[of "[0..<nat max_retries]" net w rq "[]"]
  show "make_request_with_retries net rq max_retries w =
        (Inr JNull, w\<lparr>net_calls := net_calls w + nat max_retries,
                      sleeps := sleeps w @ map (\<lambda>attempt. 2 ^ attempt) [0..<nat max_retries],
                      printed := printed w @ replicate (nat max_retries) RateLimited @ [RequestGaveUp]\<rparr>)"
    by (simp add: make_request_with_retries_def print_def)
qed

theorem retry_429_429_200_witness:
  "make_request_with_retries net_429_429_200 request0 5 world0 =
     (Inr (JObject [(''images_results'', JArray [])]),
      \<lparr>net_calls = 3, llm_calls = 0, sleeps = [1, 2], printed = [RateLimited, RateLimited]\<rparr>) \<and>
   make_request_with_retries net_always_429 request0 5 world0 =
     (Inr JNull,
      \<lparr>net_calls = 5, llm_calls = 0, sleeps = [1, 2, 4, 8, 16],
       printed = [RateLimited, RateLimited, RateLimited, RateLimited, RateLimited, RequestGaveUp]\<rparr>)"
proof -
  have a: "nat 5 = Suc (Suc (Suc (Suc (Suc 0))))" by simp
  have b: "[0..<Suc (Suc (Suc (Suc (Suc 0))))] = [0, 1, 2, 3, 4]" by (simp add: upt_rec)
  show ?thesis
    using retry_429_429_200[of net_429_429_200 world0 request0 "JObject [(''images_results'', JArray [])]" 5]
      retry_429_429_200[of net_always_429 world0 request0 JNull 5]
    unfolding a b
    by (simp add: net_429_429_200_def net_always_429_def world0_def answers_def)
qed

text \<open>
  C6, as stated, fails: a 200 response whose \<open>json()\<close> raises an exception outside the
  \<open>RequestException\<close> hierarchy (a plain \<open>ValueError\<close>) is not caught by
  \<open>except RequestException\<close>; the exception leaves the function on the first attempt.
\<close>

theorem escape_counterexample:
  "make_request_with_retries net_invalid_json request0 5 world0 =
     (Inl (OtherException ''ValueError''),
      \<lparr>net_calls = 1, llm_calls = 0, sleeps = [], printed = []\<rparr>)"
  by (simp add: make_request_with_retries_def upt_rec try_body_def raise_for_status_def
      net_invalid_json_def world0_def)

text \<open>
  C6, amended. When each of the \<open>max_retries\<close> attempts ends in a 429 or a
  \<open>RequestException\<close>, the fetcher returns \<open>None\<close>. An exception that leaves the fetcher is
  never a \<open>RequestException\<close>. When \<open>requests.get\<close> and \<open>response.json()\<close> raise nothing
  but \<open>RequestException\<close>s, the fetcher returns a value.
\<close>

theorem only_RequestException_retried:
  "((\<forall>i<nat max_retries. attempt_fails (net (net_calls w + i) rq))
      \<longrightarrow> fst (make_request_with_retries net rq max_retries w) = Inr JNull) \<and>
   (\<forall>e. fst (make_request_with_retries net rq max_retries w) = Inl e \<longrightarrow> \<not> is_RequestException e) \<and>
   ((\<forall>n. raises_only_RequestException (net n rq))
      \<longrightarrow> (\<exists>j. fst (make_request_with_retries net rq max_retries w) = Inr j))"
proof (intro conjI impI allI)
  assume "\<forall>i<nat max_retries. attempt_fails (net (net_calls w + i) rq)"
  then have "\<forall>i<length [0..<nat max_retries]. attempt_fails (net (net_calls w + i) rq)" by simp
  then show "fst (make_request_with_retries net rq max_retries w) = Inr JNull"
    unfolding make_request_with_retries_def by (rule fetch_loop_all_fail)
next
  fix e assume "fst (make_request_with_retries net rq max_retries w) = Inl e"
  then show "\<not> is_RequestException e"
    unfolding make_request_with_retries_def by (rule fetch_loop_fst_Inl)
next
  assume "\<forall>n. raises_only_RequestException (net n rq)"
  then show "\<exists>j. fst (make_request_with_retries net rq max_retries w) = Inr j"
    unfolding make_request_with_retries_def by (rule fetch_loop_returns)
qed

theorem only_RequestException_retried_witness:
  "fst (make_request_with_retries net_failing request0 5 world0) = Inr JNull \<and>
   \<not> is_RequestException (OtherException ''ValueError'')"
proof -
  have f: "\<forall>i<nat 5. attempt_fails (net_failing (net_calls world0 + i) request0)"
    by (simp add: net_failing_def attempt_fails_def raise_for_status_def)
  have r: "\<forall>n. raises_only_RequestException (net_failing n request0)"
    by (simp add: net_failing_def raises_only_RequestException_def)
  have e: "fst (make_request_with_retries net_invalid_json request0 5 world0) = Inl (OtherException ''ValueError'')"
    by (simp add: make_request_with_retries_def upt_rec try_body_def raise_for_status_def
      net_invalid_json_def world0_def)
  from only_RequestException_retried[of 5 net_failing world0 request0] f r
    only_RequestException_retried[of 5 net_invalid_json world0 request0] e
  show ?thesis by blast
qed

section \<open>Properties of the search adapters and of main\<close>

lemma items_of_falsy_or_fieldless:
  "\<not> py_truthy data \<or> lacks_field field data \<Longrightarrow> items_of field (Inr data, w) = (Inr (JArray []), w)"
  by (auto simp: items_of_def lacks_field_def py_get_def dict_get_def split: json.splits)

lemma items_of_zero_items:
  "zero_items field data \<Longrightarrow> items_of field (Inr data, w) = (Inr (JArray []), w)"
  by (auto simp: items_of_def zero_items_def py_get_def split: json.splits)

lemma items_of_None: "items_of field (Inr JNull, w) = (Inr (JArray []), w)"
  by (simp add: items_of_def)

text \<open>
  C10. When the fetch succeeds with a JSON body that is falsy, or that is a dict without the
  expected list field (\<open>items\<close> for Google, \<open>images_results\<close> for DuckDuckGo), the adapter
  returns the empty list, in the world the fetch left.
\<close>

theorem adapter_fieldless_empty:
  "(make_request_with_retries net (google_request cfg query) 5 w = (Inr data, w1) \<and>
    (\<not> py_truthy data \<or> lacks_field ''items'' data)
    \<longrightarrow> search_images_google cfg net query w = (Inr (JArray []), w1)) \<and>
   (make_request_with_retries net (duckduckgo_request cfg query) 5 w = (Inr data, w1) \<and>
    (\<not> py_truthy data \<or> lacks_field ''images_results'' data)
    \<longrightarrow> search_images_duckduckgo cfg net query w = (Inr (JArray []), w1))"
  by (simp add: search_images_google_def search_images_duckduckgo_def items_of_falsy_or_fieldless)

lemma mrwr_first_ok:
  "net (net_calls w) rq = Inr \<lparr>status_code = 200, json_body = Inr j\<rparr> \<Longrightarrow>
   make_request_with_retries net rq 5 w = (Inr j, w\<lparr>net_calls := Suc (net_calls w)\<rparr>)"
  by (simp add: make_request_with_retries_def upt_rec try_body_def raise_for_status_def)

theorem adapter_fieldless_empty_witness:
  "search_images_google cfg_google net_fieldless ''fire'' world0 =
     (Inr (JArray []), \<lparr>net_calls = 1, llm_calls = 0, sleeps = [], printed = []\<rparr>) \<and>
   search_images_duckduckgo cfg_duckduckgo net_falsy ''fire'' world0 =
     (Inr (JArray []), \<lparr>net_calls = 1, llm_calls = 0, sleeps = [], printed = []\<rparr>)"
proof -
  have a: "make_request_with_retries net_fieldless (google_request cfg_google ''fire'') 5 world0 =
      (Inr (JObject [(''kind'', JString ''customsearch#search'')]),
       \<lparr>net_calls = 1, llm_calls = 0, sleeps = [], printed = []\<rparr>)"
    using mrwr_first_ok[of net_fieldless world0] by (simp add: net_fieldless_def world0_def)
  have b: "make_request_with_retries net_falsy (duckduckgo_request cfg_duckduckgo ''fire'') 5 world0 =
      (Inr (JObject []), \<lparr>net_calls = 1, llm_calls = 0, sleeps = [], printed = []\<rparr>)"
    using mrwr_first_ok[of net_falsy world0] by (simp add: net_falsy_def world0_def)
  have c: "lacks_field ''items'' (JObject [(''kind'', JString ''customsearch#search'')])"
    by (simp add: lacks_field_def)
  have d: "\<not> py_truthy (JObject [])" by simp
  from adapter_fieldless_empty[of net_fieldless cfg_google "''fire''" world0
      "JObject [(''kind'', JString ''customsearch#search'')]"
      "\<lparr>net_calls = 1, llm_calls = 0, sleeps = [], printed = []\<rparr>"] a c
    adapter_fieldless_empty[of net_falsy cfg_duckduckgo "''fire''" world0 "JObject []"
      "\<lparr>net_calls = 1, llm_calls = 0, sleeps = [], printed = []\<rparr>"] b d
  show ?thesis by blast
qed


lemma quiet_since_refl: "quiet_since w w"
  by (simp add: quiet_since_def)

lemma quiet_since_trans: "quiet_since w w1 \<Longrightarrow> quiet_since w1 w2 \<Longrightarrow> quiet_since w w2"
  by (auto simp: quiet_since_def)

lemma quiet_since_print:
  "m \<notin> config_errors \<Longrightarrow> quiet_since w w1 \<Longrightarrow> quiet_since w (print m w1)"
  by (auto simp: quiet_since_def print_def)

lemma quiet_since_new_output:
  "quiet_since w w1 \<Longrightarrow> set (new_output w w1) \<inter> config_errors = {}"
  by (auto simp: quiet_since_def new_output_def)

lemma try_body_world:
  "try_body net rq a w = (r, w1) \<Longrightarrow> llm_calls w1 = llm_calls w \<and> quiet_since w w1"
  by (auto simp: try_body_def Let_def sleep_def print_def quiet_since_def config_errors_def
      split: sum.splits if_splits option.splits)

lemma fetch_loop_world:
  "llm_calls (snd (fetch_loop net rq as w)) = llm_calls w \<and> quiet_since w (snd (fetch_loop net rq as w))"
proof (induction as arbitrary: w)
  case Nil
  show ?case by (simp add: print_def quiet_since_def config_errors_def)
next
  case (Cons a as)
  obtain r w1 where tb: "try_body net rq a w = (r, w1)" by (cases "try_body net rq a w")
  from try_body_world[OF tb] have l1: "llm_calls w1 = llm_calls w" and q1: "quiet_since w w1" by simp_all
  show ?case
  proof (cases r)
    case (Inl e)
    let ?w2 = "sleep (2 ^ a) (print (RequestError e) w1)"
    have l2: "llm_calls ?w2 = llm_calls w" by (simp add: sleep_def print_def l1)
    have "quiet_since w1 ?w2" by (simp add: quiet_since_def sleep_def print_def config_errors_def)
    with q1 have q2: "quiet_since w ?w2" by (rule quiet_since_trans)
    from Cons.IH[of ?w2] l2 q2 tb Inl q1 l1 show ?thesis
      by (auto intro: quiet_since_trans)
  next
    case (Inr f)
    from Cons.IH[of w1] l1 q1 tb Inr show ?thesis
      by (cases f) (auto intro: quiet_since_trans)
  qed
qed

lemma mrwr_world:
  "llm_calls (snd (make_request_with_retries net rq m w)) = llm_calls w \<and>
   quiet_since w (snd (make_request_with_retries net rq m w))"
  by (simp add: make_request_with_retries_def fetch_loop_world)

lemma items_of_snd: "snd (items_of field r) = snd r"
  by (auto simp: items_of_def split: prod.splits sum.splits)

lemma search_world:
  "llm_calls (snd (search_images_google cfg net q w)) = llm_calls w"
  "quiet_since w (snd (search_images_google cfg net q w))"
  "llm_calls (snd (search_images_duckduckgo cfg net q w)) = llm_calls w"
  "quiet_since w (snd (search_images_duckduckgo cfg net q w))"
  by (simp_all add: search_images_google_def search_images_duckduckgo_def items_of_snd mrwr_world)

lemma mrwr_all_fail:
  "(\<forall>i<5. attempt_fails (net (net_calls w + i) rq)) \<Longrightarrow>
   fst (make_request_with_retries net rq 5 w) = Inr JNull"
  unfolding make_request_with_retries_def by (rule fetch_loop_all_fail) simp

lemma items_of_fst_None: "fst r = Inr JNull \<Longrightarrow> fst (items_of field r) = Inr (JArray [])"
  by (cases r) (simp add: items_of_def)

lemma report_empty: "report cfg llm rnd text (Inr (JArray []), w) = (Inr (), print NoImagesFound w)"
  by (simp add: report_def)

lemma config_ok_check: "config_ok cfg \<Longrightarrow> config_check cfg w = (Inr (), w)"
  by (auto simp: config_ok_def config_check_def)

lemma main_google:
  "config_ok cfg \<Longrightarrow> SEARCH_ENGINE cfg = Some ''google'' \<Longrightarrow> llm (llm_calls w) (KeywordsPrompt text) = Inr kw \<Longrightarrow>
   main cfg (Some text) net llm rnd w =
     report cfg llm rnd text (search_images_google cfg net (py_strip kw) (search_start cfg (py_strip kw) w))"
  by (simp add: main_def config_ok_check extract_keywords_def config_ok_def search_start_def print_def)

lemma main_duckduckgo:
  "config_ok cfg \<Longrightarrow> SEARCH_ENGINE cfg = Some ''duckduckgo'' \<Longrightarrow> llm (llm_calls w) (KeywordsPrompt text) = Inr kw \<Longrightarrow>
   main cfg (Some text) net llm rnd w =
     report cfg llm rnd text (search_images_duckduckgo cfg net (py_strip kw) (search_start cfg (py_strip kw) w))"
  by (simp add: main_def config_ok_check extract_keywords_def config_ok_def search_start_def print_def)

lemma search_start_llm_calls: "llm_calls (search_start cfg kw w) = Suc (llm_calls w)"
  by (simp add: search_start_def print_def)

text \<open>
  C5. Each adapter returns the empty list, without raising, when all five attempts of the fetch
  fail and when the response holds zero items. Given the empty list, the rest of \<open>main\<close>
  prints the "no images found" line and returns; in a whole run of \<open>main\<close> whose adapter
  yields the empty list nothing follows the adapter but that line: the scorer is not
  entered and the only model call of the run is the keyword extraction.
\<close>

theorem empty_search_reports_no_images:
  "((\<forall>i<5. attempt_fails (net (net_calls w + i) (google_request cfg query)))
      \<longrightarrow> fst (search_images_google cfg net query w) = Inr (JArray [])) \<and>
   ((\<forall>i<5. attempt_fails (net (net_calls w + i) (duckduckgo_request cfg query)))
      \<longrightarrow> fst (search_images_duckduckgo cfg net query w) = Inr (JArray [])) \<and>
   (make_request_with_retries net (google_request cfg query) 5 w = (Inr data, w1) \<and>
    zero_items ''items'' data
      \<longrightarrow> search_images_google cfg net query w = (Inr (JArray []), w1)) \<and>
   (make_request_with_retries net (duckduckgo_request cfg query) 5 w = (Inr data, w1) \<and>
    zero_items ''images_results'' data
      \<longrightarrow> search_images_duckduckgo cfg net query w = (Inr (JArray []), w1)) \<and>
   report cfg llm rnd text (Inr (JArray []), w1) = (Inr (), print NoImagesFound w1) \<and>
   (config_ok cfg \<and> llm (llm_calls w) (KeywordsPrompt text) = Inr kw \<and>
    SEARCH_ENGINE cfg = Some ''google'' \<and>
    search_images_google cfg net (py_strip kw) (search_start cfg (py_strip kw) w) = (Inr (JArray []), w1)
      \<longrightarrow> main cfg (Some text) net llm rnd w = (Inr (), print NoImagesFound w1) \<and>
          llm_calls w1 = Suc (llm_calls w)) \<and>
   (config_ok cfg \<and> llm (llm_calls w) (KeywordsPrompt text) = Inr kw \<and>
    SEARCH_ENGINE cfg = Some ''duckduckgo'' \<and>
    search_images_duckduckgo cfg net (py_strip kw) (search_start cfg (py_strip kw) w) = (Inr (JArray []), w1)
      \<longrightarrow> main cfg (Some text) net llm rnd w = (Inr (), print NoImagesFound w1) \<and>
          llm_calls w1 = Suc (llm_calls w))"
proof (intro conjI impI)
  assume "\<forall>i<5. attempt_fails (net (net_calls w + i) (google_request cfg query))"
  then show "fst (search_images_google cfg net query w) = Inr (JArray [])"
    by (simp add: search_images_google_def items_of_fst_None mrwr_all_fail)
next
  assume "\<forall>i<5. attempt_fails (net (net_calls w + i) (duckduckgo_request cfg query))"
  then show "fst (search_images_duckduckgo cfg net query w) = Inr (JArray [])"
    by (simp add: search_images_duckduckgo_def items_of_fst_None mrwr_all_fail)
next
  assume "make_request_with_retries net (google_request cfg query) 5 w = (Inr data, w1) \<and>
    zero_items ''items'' data"
  then show "search_images_google cfg net query w = (Inr (JArray []), w1)"
    by (simp add: search_images_google_def items_of_zero_items)
next
  assume "make_request_with_retries net (duckduckgo_request cfg query) 5 w = (Inr data, w1) \<and>
    zero_items ''images_results'' data"
  then show "search_images_duckduckgo cfg net query w = (Inr (JArray []), w1)"
    by (simp add: search_images_duckduckgo_def items_of_zero_items)
next
  show "report cfg llm rnd text (Inr (JArray []), w1) = (Inr (), print NoImagesFound w1)"
    by (rule report_empty)
next
  assume h: "config_ok cfg \<and> llm (llm_calls w) (KeywordsPrompt text) = Inr kw \<and>
    SEARCH_ENGINE cfg = Some ''google'' \<and>
    search_images_google cfg net (py_strip kw) (search_start cfg (py_strip kw) w) = (Inr (JArray []), w1)"
  then show "main cfg (Some text) net llm rnd w = (Inr (), print NoImagesFound w1)"
    by (simp add: main_google report_empty)
  from h search_world(1)[of cfg net "py_strip kw" "search_start cfg (py_strip kw) w"]
  show "llm_calls w1 = Suc (llm_calls w)" by (simp add: search_start_llm_calls)
next
  assume h: "config_ok cfg \<and> llm (llm_calls w) (KeywordsPrompt text) = Inr kw \<and>
    SEARCH_ENGINE cfg = Some ''duckduckgo'' \<and>
    search_images_duckduckgo cfg net (py_strip kw) (search_start cfg (py_strip kw) w) = (Inr (JArray []), w1)"
  then show "main cfg (Some text) net llm rnd w = (Inr (), print NoImagesFound w1)"
    by (simp add: main_duckduckgo report_empty)
  from h search_world(3)[of cfg net "py_strip kw" "search_start cfg (py_strip kw) w"]
  show "llm_calls w1 = Suc (llm_calls w)" by (simp add: search_start_llm_calls)
qed

lemma py_strip_keywords: "py_strip '' wildfire region '' = ''wildfire region''"
  by (simp add: py_strip_def py_isspace_def)


theorem empty_search_reports_no_images_witness:
  "fst (search_images_google cfg_google net_failing ''fire'' world0) = Inr (JArray []) \<and>
   fst (search_images_duckduckgo cfg_duckduckgo net_always_429 ''fire'' world0) = Inr (JArray []) \<and>
   main cfg_google (Some news_text) net_no_items llm_keywords Fin world0 =
     (Inr (), \<lparr>net_calls = 1, llm_calls = 1, sleeps = [],
               printed = [AskNewsText, ExtractingKeywords, KeywordsAre ''wildfire region'',
                          SearchingVia (Some ''google''), NoImagesFound]\<rparr>) \<and>
   main cfg_duckduckgo (Some news_text) net_no_items llm_keywords Fin world0 =
     (Inr (), \<lparr>net_calls = 1, llm_calls = 1, sleeps = [],
               printed = [AskNewsText, ExtractingKeywords, KeywordsAre ''wildfire region'',
                          SearchingVia (Some ''duckduckgo''), NoImagesFound]\<rparr>)"
proof -
  let ?body = "JObject [(''items'', JArray []), (''images_results'', JArray [])]"
  let ?wg = "search_start cfg_google ''wildfire region'' world0"
  let ?wd = "search_start cfg_duckduckgo ''wildfire region'' world0"
  have f1: "\<forall>i<5. attempt_fails (net_failing (net_calls world0 + i) (google_request cfg_google ''fire''))"
    by (simp add: net_failing_def attempt_fails_def raise_for_status_def)
  have f2: "\<forall>i<5. attempt_fails (net_always_429 (net_calls world0 + i) (duckduckgo_request cfg_duckduckgo ''fire''))"
    by (simp add: net_always_429_def attempt_fails_def)
  have okg: "config_ok cfg_google" by (simp add: config_ok_def cfg_google_def env_set_def env_json_def)
  have okd: "config_ok cfg_duckduckgo"
    by (simp add: config_ok_def cfg_duckduckgo_def env_set_def env_json_def)
  have kw: "llm_keywords (llm_calls world0) (KeywordsPrompt news_text) = Inr '' wildfire region ''"
    by (simp add: llm_keywords_def)
  have z: "zero_items ''items'' ?body" "zero_items ''images_results'' ?body"
    by (simp_all add: zero_items_def dict_get_def)
  have mg: "make_request_with_retries net_no_items (google_request cfg_google ''wildfire region'') 5 ?wg =
      (Inr ?body, ?wg\<lparr>net_calls := Suc (net_calls ?wg)\<rparr>)"
    by (rule mrwr_first_ok) (simp add: net_no_items_def)
  have md: "make_request_with_retries net_no_items (duckduckgo_request cfg_duckduckgo ''wildfire region'') 5 ?wd =
      (Inr ?body, ?wd\<lparr>net_calls := Suc (net_calls ?wd)\<rparr>)"
    by (rule mrwr_first_ok) (simp add: net_no_items_def)
  note g = empty_search_reports_no_images[of net_failing world0 cfg_google "''fire''"]
  note d = empty_search_reports_no_images[of net_always_429 world0 cfg_duckduckgo "''fire''"]
  note sg = empty_search_reports_no_images[of net_no_items ?wg cfg_google "''wildfire region''" ?body
      "?wg\<lparr>net_calls := Suc (net_calls ?wg)\<rparr>"]
  note sd = empty_search_reports_no_images[of net_no_items ?wd cfg_duckduckgo "''wildfire region''" ?body
      "?wd\<lparr>net_calls := Suc (net_calls ?wd)\<rparr>"]
  have ag: "search_images_google cfg_google net_no_items ''wildfire region'' ?wg =
      (Inr (JArray []), ?wg\<lparr>net_calls := Suc (net_calls ?wg)\<rparr>)"
    using sg mg z by blast
  have ad: "search_images_duckduckgo cfg_duckduckgo net_no_items ''wildfire region'' ?wd =
      (Inr (JArray []), ?wd\<lparr>net_calls := Suc (net_calls ?wd)\<rparr>)"
    using sd md z by blast
  have c1: "fst (search_images_google cfg_google net_failing ''fire'' world0) = Inr (JArray [])"
    using g f1 by blast
  have c2: "fst (search_images_duckduckgo cfg_duckduckgo net_always_429 ''fire'' world0) = Inr (JArray [])"
    using d f2 by blast
  have c3: "main cfg_google (Some news_text) net_no_items llm_keywords Fin world0 =
      (Inr (), print NoImagesFound (?wg\<lparr>net_calls := Suc (net_calls ?wg)\<rparr>))"
    using empty_search_reports_no_images[of net_no_items world0 cfg_google "''fire''" JNull
        "?wg\<lparr>net_calls := Suc (net_calls ?wg)\<rparr>" llm_keywords Fin news_text "'' wildfire region ''"]
      okg kw ag by (simp add: py_strip_keywords cfg_google_def)
  have c4: "main cfg_duckduckgo (Some news_text) net_no_items llm_keywords Fin world0 =
      (Inr (), print NoImagesFound (?wd\<lparr>net_calls := Suc (net_calls ?wd)\<rparr>))"
    using empty_search_reports_no_images[of net_no_items world0 cfg_duckduckgo "''fire''" JNull
        "?wd\<lparr>net_calls := Suc (net_calls ?wd)\<rparr>" llm_keywords Fin news_text "'' wildfire region ''"]
      okd kw ad by (simp add: py_strip_keywords cfg_duckduckgo_def)
  from c1 c2 c3 c4 show ?thesis
    by (simp add: search_start_def print_def world0_def cfg_google_def cfg_duckduckgo_def)
qed

lemma loop_body_printed:
  "loop_body llm rnd text img acc w = (r, w1) \<Longrightarrow> printed w1 = printed w"
  by (auto simp: loop_body_def Let_def split: json.splits if_splits sum.splits)

lemma relevance_loop_printed:
  "printed (snd (relevance_loop llm rnd text imgs acc w)) = printed w"
proof (induction imgs arbitrary: acc w)
  case Nil
  show ?case by simp
next
  case (Cons img imgs)
  obtain r w1 where lb: "loop_body llm rnd text img acc w = (r, w1)"
    by (cases "loop_body llm rnd text img acc w")
  from loop_body_printed[OF lb] have p: "printed w1 = printed w" .
  show ?case
  proof (cases r)
    case (Inl e)
    with lb p show ?thesis by simp
  next
    case (Inr acc1)
    with lb p Cons.IH[of acc1 w1] show ?thesis by simp
  qed
qed

lemma evaluate_relevance_quiet:
  "env_set (OPENAI_API_KEY cfg) \<Longrightarrow>
   printed (snd (evaluate_relevance cfg llm rnd images text w)) = printed w"
proof -
  assume k: "env_set (OPENAI_API_KEY cfg)"
  show ?thesis
  proof (cases "py_iter images")
    case (Inl e)
    with k show ?thesis by (simp add: evaluate_relevance_def)
  next
    case (Inr imgs)
    obtain r w1 where rl: "relevance_loop llm rnd text imgs (None, NegInf) w = (r, w1)"
      by (cases "relevance_loop llm rnd text imgs (None, NegInf) w")
    from relevance_loop_printed[of llm rnd "text" imgs "(None, NegInf)" w] rl
    have "printed w1 = printed w" by simp
    with k Inr rl show ?thesis
      by (auto simp: evaluate_relevance_def split: sum.splits prod.splits)
  qed
qed

lemma report_quiet:
  assumes k: "env_set (OPENAI_API_KEY cfg)"
  shows "quiet_since (snd r) (snd (report cfg llm rnd text r))"
proof (cases r)
  case (Pair x w)
  show ?thesis
  proof (cases x)
    case (Inl e)
    with Pair show ?thesis by (simp add: report_def quiet_since_refl)
  next
    case (Inr images)
    let ?w0 = "print EvaluatingRelevance w"
    obtain b w1 where ev: "evaluate_relevance cfg llm rnd images text ?w0 = (b, w1)"
      by (cases "evaluate_relevance cfg llm rnd images text ?w0")
    from evaluate_relevance_quiet[OF k, of llm rnd images "text" ?w0] ev
    have p: "printed w1 = printed w @ [EvaluatingRelevance]" by (simp add: print_def)
    from Pair Inr ev p show ?thesis
      by (auto simp: report_def quiet_since_def print_def config_errors_def
          split: sum.splits option.splits)
  qed
qed

lemma search_start_quiet: "quiet_since w (search_start cfg kw w)"
  by (simp add: search_start_def print_def quiet_since_def config_errors_def)

lemma main_quiet:
  assumes ok: "config_ok cfg"
  shows "quiet_since w (snd (main cfg stdin net llm rnd w))"
proof (cases stdin)
  case None
  with ok show ?thesis
    by (simp add: main_def config_ok_check print_def quiet_since_def config_errors_def)
next
  case (Some t)
  from ok have k: "env_set (OPENAI_API_KEY cfg)" by (simp add: config_ok_def)
  show ?thesis
  proof (cases "llm (llm_calls w) (KeywordsPrompt t)")
    case (Inl e)
    with ok k Some show ?thesis
      by (simp add: main_def config_ok_check extract_keywords_def print_def quiet_since_def
          config_errors_def)
  next
    case (Inr kw)
    let ?ws = "search_start cfg (py_strip kw) w"
    from ok have "SEARCH_ENGINE cfg = Some ''google'' \<or> SEARCH_ENGINE cfg = Some ''duckduckgo''"
      by (auto simp: config_ok_def)
    then show ?thesis
    proof
      assume g: "SEARCH_ENGINE cfg = Some ''google''"
      let ?r = "search_images_google cfg net (py_strip kw) ?ws"
      have "quiet_since w (snd ?r)"
        using search_start_quiet search_world(2) by (rule quiet_since_trans)
      from this report_quiet[OF k] have "quiet_since w (snd (report cfg llm rnd t ?r))"
        by (rule quiet_since_trans)
      with main_google[of cfg llm w t kw net rnd] ok g Inr Some show ?thesis by simp
    next
      assume d: "SEARCH_ENGINE cfg = Some ''duckduckgo''"
      let ?r = "search_images_duckduckgo cfg net (py_strip kw) ?ws"
      have "quiet_since w (snd ?r)"
        using search_start_quiet search_world(4) by (rule quiet_since_trans)
      from this report_quiet[OF k] have "quiet_since w (snd (report cfg llm rnd t ?r))"
        by (rule quiet_since_trans)
      with main_duckduckgo[of cfg llm w t kw net rnd] ok d Inr Some show ?thesis by simp
    qed
  qed
qed

lemma config_check_fails:
  "\<not> config_ok cfg \<Longrightarrow>
   \<exists>m. m \<in> config_errors \<and> config_check cfg w = (Inl (SystemExit 1), print m w)"
  by (auto simp: config_ok_def config_check_def config_errors_def)

text \<open>
  C7. When the configuration is incomplete (no language-model key, whatever else is set; an
  engine other than \<open>google\<close> and \<open>duckduckgo\<close>; a missing credential of the chosen engine)
  \<open>main\<close> ends in \<open>sys.exit(1)\<close>, a non-zero exit status, with no network call and no model
  call made. When the configuration is complete the checks at the start of \<open>main\<close> pass, and
  no line of a failed configuration check is printed anywhere in the run.
\<close>

theorem missing_configuration_exits:
  "(\<not> config_ok cfg \<longrightarrow>
      fst (main cfg stdin net llm rnd w) = Inl (SystemExit 1) \<and>
      exit_status (fst (main cfg stdin net llm rnd w)) \<noteq> 0 \<and>
      net_calls (snd (main cfg stdin net llm rnd w)) = net_calls w \<and>
      llm_calls (snd (main cfg stdin net llm rnd w)) = llm_calls w) \<and>
   (\<not> env_set (OPENAI_API_KEY cfg) \<longrightarrow>
      main cfg stdin net llm rnd w = (Inl (SystemExit 1), print ErrNoOpenAIKey w)) \<and>
   (config_ok cfg \<longrightarrow>
      config_check cfg w = (Inr (), w) \<and>
      set (new_output w (snd (main cfg stdin net llm rnd w))) \<inter> config_errors = {})"
proof (intro conjI impI)
  assume "\<not> config_ok cfg"
  from config_check_fails[OF this, of w] obtain m where
    m: "config_check cfg w = (Inl (SystemExit 1), print m w)" by blast
  then have mn: "main cfg stdin net llm rnd w = (Inl (SystemExit 1), print m w)"
    by (simp add: main_def)
  from mn show "fst (main cfg stdin net llm rnd w) = Inl (SystemExit 1)" by simp
  from mn show "exit_status (fst (main cfg stdin net llm rnd w)) \<noteq> 0" by (simp add: exit_status_def)
  from mn show "net_calls (snd (main cfg stdin net llm rnd w)) = net_calls w" by (simp add: print_def)
  from mn show "llm_calls (snd (main cfg stdin net llm rnd w)) = llm_calls w" by (simp add: print_def)
next
  assume "\<not> env_set (OPENAI_API_KEY cfg)"
  then show "main cfg stdin net llm rnd w = (Inl (SystemExit 1), print ErrNoOpenAIKey w)"
    by (simp add: main_def config_check_def)
next
  assume "config_ok cfg"
  then show "config_check cfg w = (Inr (), w)" by (rule config_ok_check)
next
  assume "config_ok cfg"
  then have "quiet_since w (snd (main cfg stdin net llm rnd w))" by (rule main_quiet)
  then show "set (new_output w (snd (main cfg stdin net llm rnd w))) \<inter> config_errors = {}"
    by (rule quiet_since_new_output)
qed

theorem missing_configuration_exits_witness:
  "main cfg_no_openai (Some news_text) net_no_items llm_keywords Fin world0 =
     (Inl (SystemExit 1), \<lparr>net_calls = 0, llm_calls = 0, sleeps = [], printed = [ErrNoOpenAIKey]\<rparr>) \<and>
   exit_status (fst (main cfg_no_openai (Some news_text) net_no_items llm_keywords Fin world0)) \<noteq> 0 \<and>
   config_check cfg_duckduckgo world0 = (Inr (), world0) \<and>
   set (new_output world0 (snd (main cfg_duckduckgo (Some news_text) net_no_items llm_keywords Fin world0)))
     \<inter> config_errors = {}"
proof -
  have bad: "\<not> config_ok cfg_no_openai" "\<not> env_set (OPENAI_API_KEY cfg_no_openai)"
    by (simp_all add: config_ok_def cfg_no_openai_def env_set_def env_json_def)
  have ok: "config_ok cfg_duckduckgo"
    by (simp add: config_ok_def cfg_duckduckgo_def env_set_def env_json_def)
  from missing_configuration_exits[of cfg_no_openai "Some news_text" net_no_items llm_keywords Fin world0] bad
    missing_configuration_exits[of cfg_duckduckgo "Some news_text" net_no_items llm_keywords Fin world0] ok
  show ?thesis by (simp add: print_def world0_def exit_status_def)
qed

section \<open>Properties of evaluate_relevance\<close>

lemma is_max_score_nth:
  "is_max_score ss i = (i < length ss \<and> ss ! i \<noteq> NaN \<and> (\<forall>j<length ss. \<not> pygt (ss ! j) (ss ! i)))"
proof -
  have "(\<forall>x\<in>set ss. \<not> pygt x (ss ! i)) = (\<forall>j<length ss. \<not> pygt (ss ! j) (ss ! i))"
    by (metis in_set_conv_nth)
  then show ?thesis by (simp add: is_max_score_def)
qed

lemma is_first_max_nth:
  "is_first_max ss i = (is_max_score ss i \<and> (\<forall>j<i. ss ! j \<noteq> ss ! i))"
proof (cases "i < length ss")
  case True
  then have "(ss ! i \<in> set (take i ss)) = (\<exists>j<i. ss ! j = ss ! i)"
    by (auto simp: in_set_conv_nth)
  then show ?thesis by (auto simp: is_first_max_def)
next
  case False
  then show ?thesis by (simp add: is_first_max_def is_max_score_def)
qed

lemma relevance_loop_running_max:
  "scored_candidates llm rnd text imgs (llm_calls w) = Inr cs \<Longrightarrow>
   relevance_loop llm rnd text imgs acc w =
     (Inr (running_max cs acc), w\<lparr>llm_calls := llm_calls w + length cs\<rparr>)"
proof (induction imgs arbitrary: acc w cs)
  case Nil
  then show ?case by simp
next
  case (Cons img imgs)
  from Cons.prems obtain kvs where img: "img = JObject kvs"
    by (cases img) simp_all
  show ?case
  proof (cases "py_truthy (resolve_url kvs)")
    case False
    with Cons.prems img have "scored_candidates llm rnd text imgs (llm_calls w) = Inr cs" by simp
    from Cons.IH[OF this, of acc] img False show ?thesis by (simp add: loop_body_def)
  next
    case True
    with Cons.prems img obtain s cs1 where
      s: "llm (llm_calls w) (RelevancePrompt text (resolve_url kvs)) = Inr s" and
      cs1: "scored_candidates llm rnd text imgs (Suc (llm_calls w)) = Inr cs1" and
      cs: "cs = (kvs, parse_score rnd s) # cs1"
      by (auto split: sum.splits)
    let ?w1 = "w\<lparr>llm_calls := Suc (llm_calls w)\<rparr>"
    have "scored_candidates llm rnd text imgs (llm_calls ?w1) = Inr cs1" using cs1 by simp
    note ih = Cons.IH[OF this]
    show ?thesis
      using img True s cs ih
      by (simp add: loop_body_def Let_def candidate_image_def)
  qed
qed

lemma scored_candidates_fst:
  "scored_candidates llm rnd text imgs k = Inr cs \<Longrightarrow> map fst cs = resolvable_candidates imgs"
proof (induction imgs arbitrary: k cs)
  case Nil
  then show ?case by simp
next
  case (Cons img imgs)
  from Cons.prems obtain kvs where img: "img = JObject kvs"
    by (cases img) simp_all
  show ?case
  proof (cases "py_truthy (resolve_url kvs)")
    case False
    with Cons img show ?thesis by simp
  next
    case True
    with Cons.prems img obtain s cs1 where
      cs1: "scored_candidates llm rnd text imgs (Suc k) = Inr cs1" and
      cs: "cs = (kvs, parse_score rnd s) # cs1"
      by (auto split: sum.splits)
    from Cons.IH[OF cs1] cs img True show ?thesis by simp
  qed
qed

lemma running_max_append:
  "running_max (cs @ [c]) acc =
     (if pygt (snd c) (snd (running_max cs acc)) then (Some (candidate_image (fst c)), snd c)
      else running_max cs acc)"
  by (induction cs arbitrary: acc) simp_all

lemma pygt_irrefl: "\<not> pygt a a"
  by (cases a) simp_all

lemma pygt_not_NaN: "pygt a b \<Longrightarrow> a \<noteq> NaN \<and> b \<noteq> NaN \<and> a \<noteq> NegInf"
  by (cases a; cases b) simp_all

lemma pygt_trans_le: "\<not> pygt a s \<Longrightarrow> pygt t s \<Longrightarrow> \<not> pygt a t"
  by (cases a; cases s; cases t) simp_all

lemma pygt_antisym: "a \<noteq> NaN \<Longrightarrow> b \<noteq> NaN \<Longrightarrow> \<not> pygt a b \<Longrightarrow> \<not> pygt b a \<Longrightarrow> a = b"
  by (cases a; cases b) simp_all

lemma pygt_NegInf: "a \<noteq> NaN \<Longrightarrow> a \<noteq> NegInf \<Longrightarrow> pygt a NegInf"
  by (cases a) simp_all

lemma running_max_inv: "max_inv cs (running_max cs (None, NegInf))"
proof (induction cs rule: rev_induct)
  case Nil
  show ?case by (simp add: max_inv_def)
next
  case (snoc c cs)
  let ?acc = "running_max cs (None, NegInf)"
  from snoc have nan: "snd ?acc \<noteq> NaN"
    and le: "\<forall>j<length cs. \<not> pygt (snd (cs ! j)) (snd ?acc)"
    by (simp_all add: max_inv_def)
  show ?case
  proof (cases "pygt (snd c) (snd ?acc)")
    case True
    have a: "\<forall>j<length (cs @ [c]). \<not> pygt (snd ((cs @ [c]) ! j)) (snd c)"
    proof (intro allI impI)
      fix j assume "j < length (cs @ [c])"
      then have "j < length cs \<or> j = length cs" by auto
      then show "\<not> pygt (snd ((cs @ [c]) ! j)) (snd c)"
      proof
        assume j: "j < length cs"
        with le have "\<not> pygt (snd (cs ! j)) (snd ?acc)" by simp
        from pygt_trans_le[OF this True] j show ?thesis by (simp add: nth_append)
      next
        assume "j = length cs"
        then show ?thesis by (simp add: pygt_irrefl)
      qed
    qed
    have b: "\<forall>j<length cs. snd ((cs @ [c]) ! j) \<noteq> snd c"
    proof (intro allI impI)
      fix j assume j: "j < length cs"
      with le have "\<not> pygt (snd (cs ! j)) (snd ?acc)" by simp
      with True have "snd (cs ! j) \<noteq> snd c" by auto
      with j show "snd ((cs @ [c]) ! j) \<noteq> snd c" by (simp add: nth_append)
    qed
    from pygt_not_NaN[OF True] a b True show ?thesis
      unfolding max_inv_def running_max_append
      by (auto intro!: exI[of _ "length cs"])
  next
    case False
    have a: "\<forall>j<length (cs @ [c]). \<not> pygt (snd ((cs @ [c]) ! j)) (snd ?acc)"
    proof (intro allI impI)
      fix j assume "j < length (cs @ [c])"
      then have "j < length cs \<or> j = length cs" by auto
      then show "\<not> pygt (snd ((cs @ [c]) ! j)) (snd ?acc)"
        using le False by (auto simp: nth_append)
    qed
    show ?thesis
    proof (cases "fst ?acc")
      case None
      with snoc a nan False show ?thesis
        unfolding max_inv_def running_max_append by simp
    next
      case (Some b)
      with snoc obtain i where i: "i < length cs" "b = candidate_image (fst (cs ! i))"
        "snd (cs ! i) = snd ?acc" "\<forall>j<i. snd (cs ! j) \<noteq> snd ?acc" and ni: "snd ?acc \<noteq> NegInf"
        by (auto simp: max_inv_def)
      have "i < length (cs @ [c]) \<and> b = candidate_image (fst ((cs @ [c]) ! i)) \<and>
        snd ((cs @ [c]) ! i) = snd ?acc \<and> (\<forall>j<i. snd ((cs @ [c]) ! j) \<noteq> snd ?acc)"
        using i by (auto simp: nth_append)
      then have "\<exists>i<length (cs @ [c]). b = candidate_image (fst ((cs @ [c]) ! i)) \<and>
        snd ((cs @ [c]) ! i) = snd ?acc \<and> (\<forall>j<i. snd ((cs @ [c]) ! j) \<noteq> snd ?acc)" by blast
      with Some a nan ni False show ?thesis
        unfolding max_inv_def running_max_append by simp
    qed
  qed
qed


lemma evaluate_relevance_scored:
  "env_set (OPENAI_API_KEY cfg) \<Longrightarrow> scored_candidates llm rnd text images (llm_calls w) = Inr cs \<Longrightarrow>
   evaluate_relevance cfg llm rnd (JArray images) text w =
     (Inr (fst (running_max cs (None, NegInf))), w\<lparr>llm_calls := llm_calls w + length cs\<rparr>)"
  using relevance_loop_running_max[of llm rnd "text" images w cs "(None, NegInf)"]
  by (simp add: evaluate_relevance_def py_iter_def split: prod.splits)

lemma selected_is_first_max:
  assumes "fst (running_max cs (None, NegInf)) = Some b"
  shows "\<exists>i. is_first_max (map snd cs) i \<and> map snd cs ! i \<noteq> NegInf \<and> b = candidate_image (fst (cs ! i))"
proof -
  let ?acc = "running_max cs (None, NegInf)"
  from running_max_inv[of cs] assms obtain i where
    nan: "snd ?acc \<noteq> NaN" and le: "\<forall>j<length cs. \<not> pygt (snd (cs ! j)) (snd ?acc)" and
    ni: "snd ?acc \<noteq> NegInf" and
    i: "i < length cs" "b = candidate_image (fst (cs ! i))" "snd (cs ! i) = snd ?acc"
       "\<forall>j<i. snd (cs ! j) \<noteq> snd ?acc"
    by (auto simp: max_inv_def)
  have "is_first_max (map snd cs) i"
    using nan le i by (simp add: is_first_max_nth is_max_score_nth)
  with i ni show ?thesis by auto
qed

lemma first_max_selected:
  assumes fm: "is_first_max (map snd cs) i" and ni: "map snd cs ! i \<noteq> NegInf"
  shows "fst (running_max cs (None, NegInf)) = Some (candidate_image (fst (cs ! i)))"
proof -
  let ?acc = "running_max cs (None, NegInf)"
  from fm have il: "i < length cs" and inan: "snd (cs ! i) \<noteq> NaN"
    and imax: "\<forall>j<length cs. \<not> pygt (snd (cs ! j)) (snd (cs ! i))"
    and ifirst: "\<forall>j<i. snd (cs ! j) \<noteq> snd (cs ! i)"
    by (auto simp: is_first_max_nth is_max_score_nth)
  from ni il have ini: "snd (cs ! i) \<noteq> NegInf" by simp
  from running_max_inv[of cs] have nan: "snd ?acc \<noteq> NaN"
    and le: "\<forall>j<length cs. \<not> pygt (snd (cs ! j)) (snd ?acc)"
    by (simp_all add: max_inv_def)
  from le il have le_i: "\<not> pygt (snd (cs ! i)) (snd ?acc)" by simp
  have "snd ?acc \<noteq> NegInf"
  proof
    assume "snd ?acc = NegInf"
    with le_i pygt_NegInf[OF inan ini] show False by simp
  qed
  with running_max_inv[of cs] obtain b k where
    b: "fst ?acc = Some b" and k: "k < length cs" "b = candidate_image (fst (cs ! k))"
      "snd (cs ! k) = snd ?acc" "\<forall>j<k. snd (cs ! j) \<noteq> snd ?acc"
    by (cases "fst ?acc") (auto simp: max_inv_def)
  from imax k have "\<not> pygt (snd ?acc) (snd (cs ! i))" by auto
  from pygt_antisym[OF nan inan this le_i] have eq: "snd ?acc = snd (cs ! i)" .
  have "k = i"
  proof (rule ccontr)
    assume "k \<noteq> i"
    then have "k < i \<or> i < k" by auto
    then show False
    proof
      assume "k < i"
      with ifirst k(3) eq show False by auto
    next
      assume "i < k"
      with k(4) eq show False by auto
    qed
  qed
  with b k show ?thesis by simp
qed

lemma finite_nonempty_selected:
  assumes ne: "cs \<noteq> []" and fin: "\<forall>c\<in>set cs. finite_score (snd c)"
  shows "\<exists>b. fst (running_max cs (None, NegInf)) = Some b"
proof (cases "fst (running_max cs (None, NegInf))")
  case None
  let ?acc = "running_max cs (None, NegInf)"
  from running_max_inv[of cs] None have s: "snd ?acc = NegInf"
    and le: "\<forall>j<length cs. \<not> pygt (snd (cs ! j)) (snd ?acc)"
    by (auto simp: max_inv_def)
  from ne have l: "0 < length cs" by simp
  then have "cs ! 0 \<in> set cs" by simp
  with fin have "finite_score (snd (cs ! 0))" by blast
  then obtain x where "snd (cs ! 0) = Fin x" by (auto simp: finite_score_def split: pyfloat.splits)
  with le l s show ?thesis by auto
next
  case (Some b)
  then show ?thesis by blast
qed

lemma finite_has_first_max:
  assumes ne: "cs \<noteq> []" and fin: "\<forall>c\<in>set cs. finite_score (snd c)"
  shows "\<exists>i. is_first_max (map snd cs) i \<and> map snd cs ! i \<noteq> NegInf \<and>
          fst (running_max cs (None, NegInf)) = Some (candidate_image (fst (cs ! i)))"
proof -
  from finite_nonempty_selected[OF ne fin] obtain b where
    b: "fst (running_max cs (None, NegInf)) = Some b" by blast
  from selected_is_first_max[OF b] b show ?thesis by auto
qed

lemma loop_body_skip:
  "\<not> py_truthy (resolve_url kvs) \<Longrightarrow> loop_body llm rnd text (JObject kvs) acc w = (Inr acc, w)"
  by (simp add: loop_body_def)

lemma loop_body_scored:
  "py_truthy (resolve_url kvs) \<Longrightarrow> llm (llm_calls w) (RelevancePrompt text (resolve_url kvs)) = Inr s \<Longrightarrow>
   loop_body llm rnd text (JObject kvs) acc w =
     (Inr (if pygt (parse_score rnd s) (snd acc) then (Some (candidate_image kvs), parse_score rnd s) else acc),
      w\<lparr>llm_calls := Suc (llm_calls w)\<rparr>)"
  by (simp add: loop_body_def Let_def candidate_image_def)


lemma score_high: "parse_score rnd ''high'' = Fin 0"
proof -
  have "parse_float_literal (py_strip (py_strip ''high'')) = None" by code_simp
  then show ?thesis by (simp add: parse_score_def py_float_def)
qed

lemma score_empty: "parse_score rnd [] = Fin 0"
proof -
  have "parse_float_literal (py_strip (py_strip [])) = None" by code_simp
  then show ?thesis by (simp add: parse_score_def py_float_def)
qed

lemma score_na: "parse_score rnd ''N/A'' = Fin 0"
proof -
  have "parse_float_literal (py_strip (py_strip ''N/A'')) = None" by code_simp
  then show ?thesis by (simp add: parse_score_def py_float_def)
qed

lemma score_nan: "parse_score rnd ''nan'' = NaN"
proof -
  have "parse_float_literal (py_strip (py_strip ''nan'')) = Some NanLit" by code_simp
  then show ?thesis by (simp add: parse_score_def py_float_def)
qed

lemma score_7: "parse_score Fin ''7'' = Fin 7"
proof -
  have "parse_float_literal (py_strip (py_strip ''7'')) = Some (NumLit 7)" by code_simp
  then show ?thesis by (simp add: parse_score_def py_float_def)
qed

lemma score_9: "parse_score Fin ''9'' = Fin 9"
proof -
  have "parse_float_literal (py_strip (py_strip ''9'')) = Some (NumLit 9)" by code_simp
  then show ?thesis by (simp add: parse_score_def py_float_def)
qed

lemma key_google: "env_set (OPENAI_API_KEY cfg_google)"
  by (simp add: cfg_google_def env_set_def env_json_def)

lemma resolve_fire: "resolve_url fire1 = JString ''http://a/1.jpg''" "resolve_url fire2 = JString ''http://a/2.jpg''"
  "resolve_url empty_link = JNull" "resolve_url thumb_only = JString ''http://t/3.png''"
  by (simp_all add: resolve_url_def dict_get_def py_or_def fire1_def fire2_def empty_link_def thumb_only_def)

text \<open>
  C4, as stated, fails in its second half. A candidate whose \<open>link\<close> key is present but empty
  has a URL field, yet it is skipped and \<open>None\<close> is returned; and a candidate with a good
  \<open>link\<close> whose completion is \<open>nan\<close> never exceeds the initial \<open>-inf\<close>, so \<open>None\<close> is
  returned again.
\<close>

theorem none_despite_url_field:
  "evaluate_relevance cfg_google (llm_scores []) Fin (JArray [JObject empty_link]) news_text world0 =
     (Inr None, world0) \<and>
   evaluate_relevance cfg_google (llm_scores [''nan'']) Fin (JArray [JObject fire1]) news_text world0 =
     (Inr None, \<lparr>net_calls = 0, llm_calls = 1, sleeps = [], printed = []\<rparr>)"
  by (simp add: evaluate_relevance_def py_iter_def loop_body_def key_google resolve_fire
      llm_scores_def score_nan world0_def)


lemma title_fire: "dict_get fire1 ''title'' d = JString ''Fire1''" "dict_get fire2 ''title'' d = JString ''Fire2''"
  "dict_get thumb_only ''title'' d = d"
  by (simp_all add: dict_get_def fire1_def fire2_def thumb_only_def)

lemma scored_fire_7_7:
  "scored_candidates (llm_scores [''7'', ''7'']) Fin news_text [JObject fire1, JObject fire2] 0 =
     Inr [(fire1, Fin 7), (fire2, Fin 7)]"
  by (simp add: resolve_fire llm_scores_def score_7)

lemma scored_fire_7_9:
  "scored_candidates (llm_scores [''7'', ''9'']) Fin news_text [JObject fire1, JObject fire2] 0 =
     Inr [(fire1, Fin 7), (fire2, Fin 9)]"
  by (simp add: resolve_fire llm_scores_def score_7 score_9)

lemma scored_fire_high_7:
  "scored_candidates (llm_scores [''high'', ''7'']) Fin news_text
     [JObject empty_link, JObject fire1, JObject fire2] 0 = Inr [(fire1, Fin 0), (fire2, Fin 7)]"
  by (simp add: resolve_fire llm_scores_def score_7 score_high)

text \<open>
  C9. URL resolution tests truthiness, not the presence of the key: a candidate whose
  \<open>link\<close> is the empty string resolves to its \<open>thumbnail\<close>, which is then the URL the model
  is asked about and the URL stored; a candidate whose \<open>link\<close> and \<open>thumbnail\<close> are each
  absent or the empty string is skipped, with no model call and the running maximum unchanged.
\<close>

theorem url_resolution_by_truthiness:
  "(map_of kvs ''link'' = Some (JString []) \<longrightarrow> resolve_url kvs = dict_get kvs ''thumbnail'' JNull) \<and>
   ((map_of kvs ''link'' = None \<or> map_of kvs ''link'' = Some (JString [])) \<and>
    (map_of kvs ''thumbnail'' = None \<or> map_of kvs ''thumbnail'' = Some (JString []))
      \<longrightarrow> loop_body llm rnd text (JObject kvs) acc w = (Inr acc, w)) \<and>
   (map_of kvs ''link'' = Some (JString []) \<and> map_of kvs ''thumbnail'' = Some (JString t) \<and> t \<noteq> [] \<and>
    llm (llm_calls w) (RelevancePrompt text (JString t)) = Inr s
      \<longrightarrow> loop_body llm rnd text (JObject kvs) acc w =
            (Inr (if pygt (parse_score rnd s) (snd acc)
                  then (Some \<lparr>url = JString t,
                              description = dict_get kvs ''title'' (JString no_description)\<rparr>,
                        parse_score rnd s)
                  else acc),
             w\<lparr>llm_calls := Suc (llm_calls w)\<rparr>))"
proof (intro conjI impI)
  assume "map_of kvs ''link'' = Some (JString [])"
  then show "resolve_url kvs = dict_get kvs ''thumbnail'' JNull"
    by (simp add: resolve_url_def py_or_def dict_get_def)
next
  assume "(map_of kvs ''link'' = None \<or> map_of kvs ''link'' = Some (JString [])) \<and>
    (map_of kvs ''thumbnail'' = None \<or> map_of kvs ''thumbnail'' = Some (JString []))"
  then have "\<not> py_truthy (resolve_url kvs)"
    by (auto simp: resolve_url_def py_or_def dict_get_def)
  then show "loop_body llm rnd text (JObject kvs) acc w = (Inr acc, w)" by (rule loop_body_skip)
next
  assume h: "map_of kvs ''link'' = Some (JString []) \<and> map_of kvs ''thumbnail'' = Some (JString t) \<and>
    t \<noteq> [] \<and> llm (llm_calls w) (RelevancePrompt text (JString t)) = Inr s"
  then have r: "resolve_url kvs = JString t" by (simp add: resolve_url_def py_or_def dict_get_def)
  with h have "py_truthy (resolve_url kvs)"
    "llm (llm_calls w) (RelevancePrompt text (resolve_url kvs)) = Inr s" by simp_all
  from loop_body_scored[OF this(1), of llm w "text" s rnd acc] this(2) r
  show "loop_body llm rnd text (JObject kvs) acc w =
            (Inr (if pygt (parse_score rnd s) (snd acc)
                  then (Some \<lparr>url = JString t,
                              description = dict_get kvs ''title'' (JString no_description)\<rparr>,
                        parse_score rnd s)
                  else acc),
             w\<lparr>llm_calls := Suc (llm_calls w)\<rparr>)"
    by (simp add: candidate_image_def)
qed

theorem url_resolution_by_truthiness_witness:
  "resolve_url thumb_only = JString ''http://t/3.png'' \<and>
   loop_body (llm_scores [''7'']) Fin news_text (JObject empty_link) (None, NegInf) world0 =
     (Inr (None, NegInf), world0) \<and>
   loop_body (llm_scores [''7'']) Fin news_text (JObject thumb_only) (None, NegInf) world0 =
     (Inr (Some \<lparr>url = JString ''http://t/3.png'', description = JString no_description\<rparr>, Fin 7),
      \<lparr>net_calls = 0, llm_calls = 1, sleeps = [], printed = []\<rparr>)"
proof -
  have a: "map_of thumb_only ''link'' = Some (JString [])"
    "map_of thumb_only ''thumbnail'' = Some (JString ''http://t/3.png'')"
    "map_of empty_link ''link'' = Some (JString [])" "map_of empty_link ''thumbnail'' = None"
    by (simp_all add: thumb_only_def empty_link_def)
  have l: "llm_scores [''7''] (llm_calls world0) (RelevancePrompt news_text (JString ''http://t/3.png'')) = Inr ''7''"
    by (simp add: llm_scores_def world0_def)
  from url_resolution_by_truthiness[of thumb_only "llm_scores [''7'']" Fin news_text "(None, NegInf)" world0
      "''http://t/3.png''" "''7''"] a l
    url_resolution_by_truthiness[of empty_link "llm_scores [''7'']" Fin news_text "(None, NegInf)" world0
      "''http://t/3.png''" "''7''"]
  show ?thesis
    by (simp add: score_7 world0_def title_fire resolve_fire)
qed

text \<open>
  C3. A completion that does not parse as a float (such as \<open>high\<close>, the empty text,
  \<open>N/A\<close>) gives the score 0 and raises nothing; the candidate is then compared with the
  running maximum like any other, replacing it exactly when 0 exceeds the best score so far.
\<close>

theorem malformed_score_is_zero:
  "(py_float rnd (py_strip s) = None \<longrightarrow> parse_score rnd s = Fin 0) \<and>
   (py_truthy (resolve_url kvs) \<and> llm (llm_calls w) (RelevancePrompt text (resolve_url kvs)) = Inr s \<and>
    py_float rnd (py_strip s) = None
      \<longrightarrow> loop_body llm rnd text (JObject kvs) acc w =
            (Inr (if pygt (Fin 0) (snd acc) then (Some (candidate_image kvs), Fin 0) else acc),
             w\<lparr>llm_calls := Suc (llm_calls w)\<rparr>)) \<and>
   parse_score rnd ''high'' = Fin 0 \<and> parse_score rnd [] = Fin 0 \<and> parse_score rnd ''N/A'' = Fin 0"
proof (intro conjI impI)
  assume "py_float rnd (py_strip s) = None"
  then show "parse_score rnd s = Fin 0" by (simp add: parse_score_def)
next
  assume h: "py_truthy (resolve_url kvs) \<and>
    llm (llm_calls w) (RelevancePrompt text (resolve_url kvs)) = Inr s \<and> py_float rnd (py_strip s) = None"
  then have z: "parse_score rnd s = Fin 0" by (simp add: parse_score_def)
  from h loop_body_scored[of kvs llm w "text" s rnd acc]
  show "loop_body llm rnd text (JObject kvs) acc w =
            (Inr (if pygt (Fin 0) (snd acc) then (Some (candidate_image kvs), Fin 0) else acc),
             w\<lparr>llm_calls := Suc (llm_calls w)\<rparr>)"
    by (simp add: z)
qed (rule score_high score_empty score_na)+

theorem malformed_score_is_zero_witness:
  "py_float Fin (py_strip '' high '') = None \<and> parse_score Fin '' high '' = Fin 0 \<and>
   loop_body (llm_scores ['' high '']) Fin news_text (JObject fire1) (None, NegInf) world0 =
     (Inr (Some \<lparr>url = JString ''http://a/1.jpg'', description = JString ''Fire1''\<rparr>, Fin 0),
      \<lparr>net_calls = 0, llm_calls = 1, sleeps = [], printed = []\<rparr>)"
proof -
  have p: "py_float Fin (py_strip '' high '') = None"
  proof -
    have "parse_float_literal (py_strip (py_strip '' high '')) = None" by code_simp
    then show ?thesis by (simp add: py_float_def)
  qed
  have t: "py_truthy (resolve_url fire1)" by (simp add: resolve_fire)
  have l: "llm_scores ['' high ''] (llm_calls world0) (RelevancePrompt news_text (resolve_url fire1)) = Inr '' high ''"
    by (simp add: llm_scores_def world0_def)
  from malformed_score_is_zero[of Fin "'' high ''" fire1 "llm_scores ['' high '']" world0 news_text "(None, NegInf)"]
    p t l
  show ?thesis
    by (simp add: candidate_image_def resolve_fire title_fire world0_def)
qed

text \<open>
  C8. With the key configured, when every model call made for a candidate returns a completion
  that fails to parse or parses to a finite float, and at least one candidate has a resolvable
  URL, \<open>evaluate_relevance\<close> returns some BestImage: any finite score, also the 0 of a parse
  failure, exceeds the initial \<open>-inf\<close>. So under that condition \<open>None\<close> is returned only
  when no candidate has a resolvable URL.
\<close>

theorem finite_scores_select_some:
  "pygt (Fin x) NegInf \<and>
   (env_set (OPENAI_API_KEY cfg) \<and> scored_candidates llm rnd text images (llm_calls w) = Inr cs \<and>
    (\<forall>c\<in>set cs. finite_score (snd c))
      \<longrightarrow> map fst cs = resolvable_candidates images \<and>
          (resolvable_candidates images \<noteq> []
             \<longrightarrow> (\<exists>b. fst (evaluate_relevance cfg llm rnd (JArray images) text w) = Inr (Some b))) \<and>
          (fst (evaluate_relevance cfg llm rnd (JArray images) text w) = Inr None
             \<longrightarrow> resolvable_candidates images = []))"
proof (intro conjI impI)
  show "pygt (Fin x) NegInf" by simp
next
  assume h: "env_set (OPENAI_API_KEY cfg) \<and> scored_candidates llm rnd text images (llm_calls w) = Inr cs \<and>
    (\<forall>c\<in>set cs. finite_score (snd c))"
  with scored_candidates_fst[of llm rnd "text" images "llm_calls w" cs]
  show m: "map fst cs = resolvable_candidates images" by simp
  from h have ev: "fst (evaluate_relevance cfg llm rnd (JArray images) text w) =
      Inr (fst (running_max cs (None, NegInf)))"
    by (simp add: evaluate_relevance_scored)
  {
    assume "resolvable_candidates images \<noteq> []"
    with m have "cs \<noteq> []" by auto
    from finite_nonempty_selected[OF this] h ev
    show "\<exists>b. fst (evaluate_relevance cfg llm rnd (JArray images) text w) = Inr (Some b)" by simp
  }
  {
    assume n: "fst (evaluate_relevance cfg llm rnd (JArray images) text w) = Inr None"
    show "resolvable_candidates images = []"
    proof (rule ccontr)
      assume "resolvable_candidates images \<noteq> []"
      with m have "cs \<noteq> []" by auto
      from finite_nonempty_selected[OF this] h ev n show False by simp
    qed
  }
qed

theorem finite_scores_select_some_witness:
  "resolvable_candidates [JObject empty_link, JObject fire1, JObject fire2] = [fire1, fire2] \<and>
   (\<exists>b. fst (evaluate_relevance cfg_google (llm_scores [''high'', ''7'']) Fin
             (JArray [JObject empty_link, JObject fire1, JObject fire2]) news_text world0) = Inr (Some b)) \<and>
   fst (evaluate_relevance cfg_google (llm_scores []) Fin (JArray [JObject empty_link]) news_text world0) =
     Inr None \<and>
   resolvable_candidates [JObject empty_link] = []"
proof -
  have f: "\<forall>c\<in>set [(fire1, Fin 0), (fire2, Fin 7)]. finite_score (snd c)"
    by (simp add: finite_score_def)
  have r: "resolvable_candidates [JObject empty_link, JObject fire1, JObject fire2] = [fire1, fire2]"
    by (simp add: resolve_fire)
  have s: "scored_candidates (llm_scores [''high'', ''7'']) Fin news_text
     [JObject empty_link, JObject fire1, JObject fire2] (llm_calls world0) = Inr [(fire1, Fin 0), (fire2, Fin 7)]"
    using scored_fire_high_7 by (simp add: world0_def)
  have s0: "scored_candidates (llm_scores []) Fin news_text [JObject empty_link] (llm_calls world0) = Inr []"
    by (simp add: resolve_fire)
  have n: "fst (evaluate_relevance cfg_google (llm_scores []) Fin (JArray [JObject empty_link]) news_text world0) =
     Inr None"
    by (simp add: evaluate_relevance_def py_iter_def loop_body_def key_google resolve_fire)
  have e: "resolvable_candidates [JObject empty_link] = []"
    using finite_scores_select_some[of 0 cfg_google "llm_scores []" Fin news_text
      "[JObject empty_link]" world0 "[]"] key_google s0 n by simp
  from finite_scores_select_some[of 0 cfg_google "llm_scores [''high'', ''7'']" Fin news_text
      "[JObject empty_link, JObject fire1, JObject fire2]" world0 "[(fire1, Fin 0), (fire2, Fin 7)]"]
    key_google s f r n e
  show ?thesis by (simp add: resolve_fire)
qed


text \<open>
  C2. The running maximum is replaced only by a strictly greater score: a candidate whose
  score equals the best so far leaves the running maximum as it is. So, with the key
  configured and every model call answered, the BestImage returned is the first candidate
  that holds the maximal score (ties keep the first seen): whatever is returned is that
  candidate, and that candidate is returned whenever its score is above the initial \<open>-inf\<close>.
\<close>

theorem first_maximum_wins:
  "(py_truthy (resolve_url kvs) \<and> llm (llm_calls w) (RelevancePrompt text (resolve_url kvs)) = Inr s \<and>
    parse_score rnd s = snd acc
      \<longrightarrow> loop_body llm rnd text (JObject kvs) acc w = (Inr acc, w\<lparr>llm_calls := Suc (llm_calls w)\<rparr>)) \<and>
   (env_set (OPENAI_API_KEY cfg) \<and> scored_candidates llm rnd text images (llm_calls w) = Inr cs \<and>
    is_first_max (map snd cs) i \<and> map snd cs ! i \<noteq> NegInf
      \<longrightarrow> evaluate_relevance cfg llm rnd (JArray images) text w =
            (Inr (Some (candidate_image (fst (cs ! i)))), w\<lparr>llm_calls := llm_calls w + length cs\<rparr>)) \<and>
   (env_set (OPENAI_API_KEY cfg) \<and> scored_candidates llm rnd text images (llm_calls w) = Inr cs \<and>
    fst (evaluate_relevance cfg llm rnd (JArray images) text w) = Inr (Some b)
      \<longrightarrow> (\<exists>k. is_first_max (map snd cs) k \<and> b = candidate_image (fst (cs ! k))))"
proof (intro conjI impI)
  assume h: "py_truthy (resolve_url kvs) \<and>
    llm (llm_calls w) (RelevancePrompt text (resolve_url kvs)) = Inr s \<and> parse_score rnd s = snd acc"
  then have "\<not> pygt (parse_score rnd s) (snd acc)" by (simp add: pygt_irrefl)
  with h loop_body_scored[of kvs llm w "text" s rnd acc]
  show "loop_body llm rnd text (JObject kvs) acc w = (Inr acc, w\<lparr>llm_calls := Suc (llm_calls w)\<rparr>)"
    by simp
next
  assume h: "env_set (OPENAI_API_KEY cfg) \<and> scored_candidates llm rnd text images (llm_calls w) = Inr cs \<and>
    is_first_max (map snd cs) i \<and> map snd cs ! i \<noteq> NegInf"
  then have "fst (running_max cs (None, NegInf)) = Some (candidate_image (fst (cs ! i)))"
    by (simp add: first_max_selected)
  with h evaluate_relevance_scored[of cfg llm rnd "text" images w cs]
  show "evaluate_relevance cfg llm rnd (JArray images) text w =
            (Inr (Some (candidate_image (fst (cs ! i)))), w\<lparr>llm_calls := llm_calls w + length cs\<rparr>)"
    by simp
next
  assume h: "env_set (OPENAI_API_KEY cfg) \<and> scored_candidates llm rnd text images (llm_calls w) = Inr cs \<and>
    fst (evaluate_relevance cfg llm rnd (JArray images) text w) = Inr (Some b)"
  with evaluate_relevance_scored[of cfg llm rnd "text" images w cs]
  have "fst (running_max cs (None, NegInf)) = Some b" by simp
  from selected_is_first_max[OF this]
  show "\<exists>k. is_first_max (map snd cs) k \<and> b = candidate_image (fst (cs ! k))" by blast
qed

theorem first_maximum_wins_witness:
  "is_first_max [Fin 7, Fin 7] 0 \<and>
   evaluate_relevance cfg_google (llm_scores [''7'', ''7'']) Fin (JArray [JObject fire1, JObject fire2])
       news_text world0 =
     (Inr (Some \<lparr>url = JString ''http://a/1.jpg'', description = JString ''Fire1''\<rparr>),
      \<lparr>net_calls = 0, llm_calls = 2, sleeps = [], printed = []\<rparr>) \<and>
   loop_body (llm_scores [''7'', ''7'']) Fin news_text (JObject fire2)
       (Some \<lparr>url = JString ''http://a/1.jpg'', description = JString ''Fire1''\<rparr>, Fin 7)
       \<lparr>net_calls = 0, llm_calls = 1, sleeps = [], printed = []\<rparr> =
     (Inr (Some \<lparr>url = JString ''http://a/1.jpg'', description = JString ''Fire1''\<rparr>, Fin 7),
      \<lparr>net_calls = 0, llm_calls = 2, sleeps = [], printed = []\<rparr>) \<and>
   (\<exists>k. is_first_max [Fin 7, Fin 7] k \<and>
      candidate_image fire1 = candidate_image (fst ([(fire1, Fin 7), (fire2, Fin 7)] ! k)))"
proof -
  let ?llm = "llm_scores [''7'', ''7'']"
  let ?w1 = "\<lparr>net_calls = 0, llm_calls = 1, sleeps = [], printed = []\<rparr>"
  let ?acc = "(Some \<lparr>url = JString ''http://a/1.jpg'', description = JString ''Fire1''\<rparr>, Fin 7)"
  have fm: "is_first_max [Fin 7, Fin 7] 0"
    by (simp add: is_first_max_nth is_max_score_nth less_Suc_eq)
  have s: "scored_candidates ?llm Fin news_text [JObject fire1, JObject fire2] (llm_calls world0) =
      Inr [(fire1, Fin 7), (fire2, Fin 7)]"
    using scored_fire_7_7 by (simp add: world0_def)
  have t: "py_truthy (resolve_url fire2)" by (simp add: resolve_fire)
  have l: "?llm (llm_calls ?w1) (RelevancePrompt news_text (resolve_url fire2)) = Inr ''7''"
    by (simp add: llm_scores_def)
  note A = first_maximum_wins[of fire2 ?llm world0 news_text "''7''" Fin ?acc cfg_google
        "[JObject fire1, JObject fire2]" "[(fire1, Fin 7), (fire2, Fin 7)]" 0 "candidate_image fire1"]
  have a: "evaluate_relevance cfg_google ?llm Fin (JArray [JObject fire1, JObject fire2]) news_text world0 =
      (Inr (Some (candidate_image fire1)), world0\<lparr>llm_calls := llm_calls world0 + 2\<rparr>)"
    using A key_google s fm by simp
  then have "fst (evaluate_relevance cfg_google ?llm Fin (JArray [JObject fire1, JObject fire2])
      news_text world0) = Inr (Some (candidate_image fire1))" by simp
  with A key_google s have c: "\<exists>k. is_first_max (map snd [(fire1, Fin 7), (fire2, Fin 7)]) k \<and>
      candidate_image fire1 = candidate_image (fst ([(fire1, Fin 7), (fire2, Fin 7)] ! k))" by blast
  have b: "loop_body ?llm Fin news_text (JObject fire2) ?acc ?w1 = (Inr ?acc, ?w1\<lparr>llm_calls := Suc (llm_calls ?w1)\<rparr>)"
    using first_maximum_wins[of fire2 ?llm ?w1 news_text "''7''" Fin ?acc cfg_google
        "[JObject fire1, JObject fire2]" "[(fire1, Fin 7), (fire2, Fin 7)]" 0]
      t l by (simp add: score_7)
  from c have c': "\<exists>k. is_first_max [Fin 7, Fin 7] k \<and>
      candidate_image fire1 = candidate_image (fst ([(fire1, Fin 7), (fire2, Fin 7)] ! k))" by simp
  from a have a': "evaluate_relevance cfg_google ?llm Fin (JArray [JObject fire1, JObject fire2])
       news_text world0 =
     (Inr (Some \<lparr>url = JString ''http://a/1.jpg'', description = JString ''Fire1''\<rparr>),
      \<lparr>net_calls = 0, llm_calls = 2, sleeps = [], printed = []\<rparr>)"
    by (simp add: candidate_image_def resolve_fire title_fire world0_def)
  from b have b': "loop_body ?llm Fin news_text (JObject fire2) ?acc ?w1 =
      (Inr ?acc, \<lparr>net_calls = 0, llm_calls = 2, sleeps = [], printed = []\<rparr>)"
    by simp
  from fm a' b' c' show ?thesis by blast
qed

lemma relevance_loop_unresolvable:
  "\<forall>img\<in>set imgs. unresolvable img \<Longrightarrow> relevance_loop llm rnd text imgs acc w = (Inr acc, w)"
proof (induction imgs)
  case Nil
  show ?case by simp
next
  case (Cons img imgs)
  from Cons.prems obtain kvs where "img = JObject kvs" "\<not> py_truthy (resolve_url kvs)"
    by (cases img) (auto simp: unresolvable_def)
  with Cons show ?case by (simp add: loop_body_skip)
qed

text \<open>
  C4, amended. With the key configured: when no candidate has a resolvable URL (in particular
  when none has a \<open>link\<close> or a \<open>thumbnail\<close> key) \<open>evaluate_relevance\<close> returns \<open>None\<close>.
  When some candidate has one and every model call made returns a completion that fails to
  parse or parses to a finite float, it returns the first candidate of maximal score: its
  resolved URL and its title, the placeholder standing for the title when the key is absent.
\<close>

theorem best_candidate_or_none:
  "(fieldless img \<longrightarrow> unresolvable img) \<and>
   (env_set (OPENAI_API_KEY cfg) \<and> (\<forall>img\<in>set images. unresolvable img)
      \<longrightarrow> evaluate_relevance cfg llm rnd (JArray images) text w = (Inr None, w)) \<and>
   (env_set (OPENAI_API_KEY cfg) \<and> scored_candidates llm rnd text images (llm_calls w) = Inr cs \<and>
    resolvable_candidates images \<noteq> [] \<and> (\<forall>c\<in>set cs. finite_score (snd c))
      \<longrightarrow> (\<exists>i. is_first_max (map snd cs) i \<and>
               evaluate_relevance cfg llm rnd (JArray images) text w =
                 (Inr (Some \<lparr>url = resolve_url (fst (cs ! i)),
                             description = dict_get (fst (cs ! i)) ''title'' (JString no_description)\<rparr>),
                  w\<lparr>llm_calls := llm_calls w + length cs\<rparr>))) \<and>
   (map_of kvs ''title'' = None \<longrightarrow> dict_get kvs ''title'' (JString no_description) = JString no_description) \<and>
   (map_of kvs ''title'' = Some t \<longrightarrow> dict_get kvs ''title'' (JString no_description) = t)"
proof (intro conjI impI)
  assume "fieldless img"
  then show "unresolvable img"
    by (auto simp: fieldless_def unresolvable_def resolve_url_def py_or_def dict_get_def split: json.splits)
next
  assume "env_set (OPENAI_API_KEY cfg) \<and> (\<forall>img\<in>set images. unresolvable img)"
  with relevance_loop_unresolvable[of images llm rnd "text" "(None, NegInf)" w]
  show "evaluate_relevance cfg llm rnd (JArray images) text w = (Inr None, w)"
    by (simp add: evaluate_relevance_def py_iter_def)
next
  assume h: "env_set (OPENAI_API_KEY cfg) \<and> scored_candidates llm rnd text images (llm_calls w) = Inr cs \<and>
    resolvable_candidates images \<noteq> [] \<and> (\<forall>c\<in>set cs. finite_score (snd c))"
  with scored_candidates_fst[of llm rnd "text" images "llm_calls w" cs] have "cs \<noteq> []" by auto
  with h finite_has_first_max[of cs] obtain i where
    i: "is_first_max (map snd cs) i"
       "fst (running_max cs (None, NegInf)) = Some (candidate_image (fst (cs ! i)))" by blast
  with h evaluate_relevance_scored[of cfg llm rnd "text" images w cs]
  have "evaluate_relevance cfg llm rnd (JArray images) text w =
      (Inr (Some \<lparr>url = resolve_url (fst (cs ! i)),
                  description = dict_get (fst (cs ! i)) ''title'' (JString no_description)\<rparr>),
       w\<lparr>llm_calls := llm_calls w + length cs\<rparr>)"
    by (simp add: candidate_image_def)
  with i(1) show "\<exists>i. is_first_max (map snd cs) i \<and>
               evaluate_relevance cfg llm rnd (JArray images) text w =
                 (Inr (Some \<lparr>url = resolve_url (fst (cs ! i)),
                             description = dict_get (fst (cs ! i)) ''title'' (JString no_description)\<rparr>),
                  w\<lparr>llm_calls := llm_calls w + length cs\<rparr>)" by blast
next
  assume "map_of kvs ''title'' = None"
  then show "dict_get kvs ''title'' (JString no_description) = JString no_description"
    by (simp add: dict_get_def)
next
  assume "map_of kvs ''title'' = Some t"
  then show "dict_get kvs ''title'' (JString no_description) = t" by (simp add: dict_get_def)
qed

theorem best_candidate_or_none_witness:
  "evaluate_relevance cfg_google (llm_scores [''7'', ''9'']) Fin
       (JArray [JObject [(''title'', JString ''Fire0'')], JObject empty_link]) news_text world0 =
     (Inr None, world0) \<and>
   evaluate_relevance cfg_google (llm_scores [''7'', ''9'']) Fin (JArray [JObject fire1, JObject fire2])
       news_text world0 =
     (Inr (Some \<lparr>url = JString ''http://a/2.jpg'', description = JString ''Fire2''\<rparr>),
      \<lparr>net_calls = 0, llm_calls = 2, sleeps = [], printed = []\<rparr>) \<and>
   dict_get thumb_only ''title'' (JString no_description) = JString no_description \<and>
   dict_get fire2 ''title'' (JString no_description) = JString ''Fire2''"
proof -
  let ?llm = "llm_scores [''7'', ''9'']"
  have fl: "fieldless (JObject [(''title'', JString ''Fire0'')])" by (simp add: fieldless_def)
  have ur: "unresolvable (JObject empty_link)" by (simp add: unresolvable_def resolve_fire)
  have s: "scored_candidates ?llm Fin news_text [JObject fire1, JObject fire2] (llm_calls world0) =
      Inr [(fire1, Fin 7), (fire2, Fin 9)]"
    using scored_fire_7_9 by (simp add: world0_def)
  have r: "resolvable_candidates [JObject fire1, JObject fire2] \<noteq> []" by (simp add: resolve_fire)
  have f: "\<forall>c\<in>set [(fire1, Fin 7), (fire2, Fin 9)]. finite_score (snd c)" by (simp add: finite_score_def)
  have t: "map_of thumb_only ''title'' = None" "map_of fire2 ''title'' = Some (JString ''Fire2'')"
    by (simp_all add: thumb_only_def fire2_def)
  note A = best_candidate_or_none[of "JObject [(''title'', JString ''Fire0'')]" cfg_google
      "[JObject [(''title'', JString ''Fire0'')], JObject empty_link]" ?llm Fin news_text world0
      "[]" thumb_only "JString ''x''"]
  note B = best_candidate_or_none[of "JObject empty_link" cfg_google
      "[JObject fire1, JObject fire2]" ?llm Fin news_text world0
      "[(fire1, Fin 7), (fire2, Fin 9)]" fire2 "JString ''Fire2''"]
  from A fl have u0: "unresolvable (JObject [(''title'', JString ''Fire0'')])" by blast
  from A u0 ur key_google have c1: "evaluate_relevance cfg_google ?llm Fin
       (JArray [JObject [(''title'', JString ''Fire0'')], JObject empty_link]) news_text world0 =
     (Inr None, world0)" by simp
  from A t have c3: "dict_get thumb_only ''title'' (JString no_description) = JString no_description"
    by blast
  from B t have c4: "dict_get fire2 ''title'' (JString no_description) = JString ''Fire2''" by blast
  from B key_google s r f have c2: "\<exists>i. is_first_max (map snd [(fire1, Fin 7), (fire2, Fin 9)]) i \<and>
      evaluate_relevance cfg_google ?llm Fin (JArray [JObject fire1, JObject fire2]) news_text world0 =
        (Inr (Some \<lparr>url = resolve_url (fst ([(fire1, Fin 7), (fire2, Fin 9)] ! i)),
                    description = dict_get (fst ([(fire1, Fin 7), (fire2, Fin 9)] ! i)) ''title''
                                    (JString no_description)\<rparr>),
         world0\<lparr>llm_calls := llm_calls world0 + length [(fire1, Fin 7), (fire2, Fin 9)]\<rparr>)" by blast
  then obtain i where i: "is_first_max [Fin 7, Fin 9] i" and
    ev: "evaluate_relevance cfg_google ?llm Fin (JArray [JObject fire1, JObject fire2]) news_text world0 =
        (Inr (Some \<lparr>url = resolve_url (fst ([(fire1, Fin 7), (fire2, Fin 9)] ! i)),
                    description = dict_get (fst ([(fire1, Fin 7), (fire2, Fin 9)] ! i)) ''title''
                                    (JString no_description)\<rparr>),
         world0\<lparr>llm_calls := llm_calls world0 + length [(fire1, Fin 7), (fire2, Fin 9)]\<rparr>)"
    by auto
  from i have il: "i < length [Fin 7, Fin 9 :: pyfloat]"
    and im: "\<forall>j<length [Fin 7, Fin 9 :: pyfloat]. \<not> pygt ([Fin 7, Fin 9] ! j) ([Fin 7, Fin 9] ! i)"
    unfolding is_first_max_nth is_max_score_nth by blast+
  have "(1::nat) < length [Fin 7, Fin 9 :: pyfloat]" by simp
  with im have "\<not> pygt ([Fin 7, Fin 9] ! 1) ([Fin 7, Fin 9] ! i)" by blast
  with il have "i = 1" by (cases "i = 0") auto
  with ev c1 c3 c4 show ?thesis by (simp add: world0_def resolve_fire title_fire)
qed

end
